theory Spec2Isabelle
  imports Complex_Main
begin

section \<open>The record store of bot.js\<close>

text \<open>
  The three SQLite tables of \<^verbatim>\<open>bot.js\<close> are lists of rows in rowid order. An
  \<^verbatim>\<open>UPDATE ... WHERE\<close> maps over the rows, a \<^verbatim>\<open>DELETE ... WHERE\<close> filters them,
  \<^verbatim>\<open>db.get\<close> returns the first matching row and \<^verbatim>\<open>db.all\<close> every matching row.
  Identifiers (Discord snowflakes) are strings. Timestamps are the integer milliseconds
  of \<^verbatim>\<open>Date.now()\<close>. A JavaScript number and a value of a \<^verbatim>\<open>REAL\<close> column is the
  rational it denotes. The product \<^verbatim>\<open>minutes * 60\<close> of /settarget is rounded as
  IEEE 754 does (\<open>js_times\<close> below); the additions to \<open>achieved_hours\<close> and the
  division \<^verbatim>\<open>elapsed / 3600\<close> are exact. Every SQL statement is taken to succeed, so the \<^verbatim>\<open>reject(err)\<close> branch of
  the helpers does not occur, and each entry point runs from its first statement to its
  last without another entry point interleaving.
\<close>

type_synonym snowflake = string

record target_row =
  guild_id :: snowflake
  user_id :: snowflake
  target_seconds :: int
  accumulated_seconds :: int
  session_start :: "int option"

record todo_row =
  todo_guild_id :: snowflake
  todo_user_id :: snowflake
  task_id :: int
  task :: string
  completed :: int

record goal_row =
  goal_guild_id :: snowflake
  goal_user_id :: snowflake
  goal_hours :: rat
  achieved_hours :: rat
  goal_session_start :: "int option"

text \<open>
  What the program sends out. A message is the template of the source with the values
  it interpolates; where the source formats a number with \<^verbatim>\<open>toFixed(2)\<close> the
  template carries the number that is formatted.
\<close>

datatype message =
    CongratsTargetHours rat
      \<comment> \<open>"Congrats! You reached your study target of ${hours} hours!",
          hours = (target_seconds / 3600).toFixed(2)\<close>
  | CongratsTarget
      \<comment> \<open>"Congrats! You reached your study target!"\<close>
  | NoKickPermission snowflake
      \<comment> \<open>"<@${userId}> left VC early but I don't have permission to kick."\<close>
  | HierarchyBlocked
      \<comment> \<open>"You left VC early, but I couldn't kick you due to role hierarchy."\<close>
  | LeftEarlyReason rat rat
      \<comment> \<open>"Left VC before reaching study target (${a} / ${t} hours)",
          a = (accumulated_seconds / 3600).toFixed(2), t = (target_seconds / 3600).toFixed(2)\<close>
  | KickedEarly rat rat
      \<comment> \<open>"You were kicked for leaving VC early (${a} / ${t} hours)", same a and t\<close>
  | GoalMissedReason rat rat
      \<comment> \<open>"Did not complete daily goal (${achieved_hours.toFixed(2)}/${goal_hours} hours)"\<close>
  | GoalMissedKicked string rat rat
      \<comment> \<open>"You were kicked from ${guild.name} for not completing your daily goal (.../... hours)."\<close>
  | ServersOnly
  | PositiveMinutes
  | TargetSet rat
  | TargetCleared
  | TaskAdded string
  | NoTasks
  | TaskList "todo_row list"
  | TaskDone int
  | TaskDeleted int
  | PositiveHours
  | GoalSet rat
  | DailyResetComplete
  | FailedToKick

datatype event =
    MemberSend snowflake snowflake message   \<comment> \<open>member.send(text), guild and user\<close>
  | MemberKick snowflake snowflake message   \<comment> \<open>member.kick(reason), guild and user\<close>
  | ChannelSend snowflake snowflake message  \<comment> \<open>announceChannel.send(text), guild and channel\<close>
  | Reply message                            \<comment> \<open>interaction.reply\<close>
  | ConsoleLog message                       \<comment> \<open>console.log\<close>
  | ConsoleError message                     \<comment> \<open>console.error\<close>

record world =
  targets :: "target_row list"
  todos :: "todo_row list"
  todos_seq :: int
    \<comment> \<open>the largest task_id ever given out (AUTOINCREMENT keeps it in sqlite_sequence)\<close>
  daily_goals :: "goal_row list"
  effects :: "event list"

definition emit :: "event \<Rightarrow> world \<Rightarrow> world" where
  "emit ev w = w\<lparr>effects := effects w @ [ev]\<rparr>"

subsection \<open>VC tracker helpers\<close>

definition target_of :: "snowflake \<Rightarrow> snowflake \<Rightarrow> target_row \<Rightarrow> bool" where
  \<comment> \<open>WHERE guild_id = ? AND user_id = ?\<close>
  "target_of g u r = (guild_id r = g \<and> user_id r = u)"

definition setTarget :: "snowflake \<Rightarrow> snowflake \<Rightarrow> int \<Rightarrow> world \<Rightarrow> world" where
  "setTarget g u seconds w =
     w\<lparr>targets :=
        (if list_ex (target_of g u) (targets w)
         then map (\<lambda>r. if target_of g u r
                         then r\<lparr>target_seconds := seconds, accumulated_seconds := 0,
                                session_start := None\<rparr>
                         else r) (targets w)
         else targets w @
           [\<lparr>guild_id = g, user_id = u, target_seconds = seconds,
             accumulated_seconds = 0, session_start = None\<rparr>])\<rparr>"

definition clearTarget :: "snowflake \<Rightarrow> snowflake \<Rightarrow> world \<Rightarrow> world" where
  "clearTarget g u w = w\<lparr>targets := filter (\<lambda>r. \<not> target_of g u r) (targets w)\<rparr>"

definition getTarget :: "snowflake \<Rightarrow> snowflake \<Rightarrow> world \<Rightarrow> target_row option" where
  "getTarget g u w = find (target_of g u) (targets w)"

definition setSessionStart :: "snowflake \<Rightarrow> snowflake \<Rightarrow> int \<Rightarrow> world \<Rightarrow> world" where
  "setSessionStart g u ts w =
     w\<lparr>targets := map (\<lambda>r. if target_of g u r then r\<lparr>session_start := Some ts\<rparr> else r)
                        (targets w)\<rparr>"

definition addAccumulated :: "snowflake \<Rightarrow> snowflake \<Rightarrow> int \<Rightarrow> world \<Rightarrow> world" where
  "addAccumulated g u addSeconds w =
     w\<lparr>targets :=
        map (\<lambda>r. if target_of g u r
                  then r\<lparr>accumulated_seconds := accumulated_seconds r + addSeconds,
                         session_start := None\<rparr>
                  else r) (targets w)\<rparr>"

definition getAllActiveSessions :: "world \<Rightarrow> target_row list" where
  "getAllActiveSessions w = filter (\<lambda>r. session_start r \<noteq> None) (targets w)"

subsection \<open>To-do helpers\<close>

definition todo_of :: "snowflake \<Rightarrow> snowflake \<Rightarrow> todo_row \<Rightarrow> bool" where
  "todo_of g u t = (todo_guild_id t = g \<and> todo_user_id t = u)"

definition addTodo :: "snowflake \<Rightarrow> snowflake \<Rightarrow> string \<Rightarrow> world \<Rightarrow> world" where
  "addTodo g u txt w =
     w\<lparr>todos := todos w @
          [\<lparr>todo_guild_id = g, todo_user_id = u, task_id = todos_seq w + 1,
            task = txt, completed = 0\<rparr>],
       todos_seq := todos_seq w + 1\<rparr>"

definition getTodos :: "snowflake \<Rightarrow> snowflake \<Rightarrow> world \<Rightarrow> todo_row list" where
  "getTodos g u w = filter (todo_of g u) (todos w)"

definition completeTodo :: "snowflake \<Rightarrow> snowflake \<Rightarrow> int \<Rightarrow> world \<Rightarrow> world" where
  "completeTodo g u taskId w =
     w\<lparr>todos := map (\<lambda>t. if todo_of g u t \<and> task_id t = taskId
                           then t\<lparr>completed := 1\<rparr> else t) (todos w)\<rparr>"

definition deleteTodo :: "snowflake \<Rightarrow> snowflake \<Rightarrow> int \<Rightarrow> world \<Rightarrow> world" where
  "deleteTodo g u taskId w =
     w\<lparr>todos := filter (\<lambda>t. \<not> (todo_of g u t \<and> task_id t = taskId)) (todos w)\<rparr>"

subsection \<open>Daily goal helpers\<close>

definition goal_of :: "snowflake \<Rightarrow> snowflake \<Rightarrow> goal_row \<Rightarrow> bool" where
  "goal_of g u d = (goal_guild_id d = g \<and> goal_user_id d = u)"

definition setDailyGoal :: "snowflake \<Rightarrow> snowflake \<Rightarrow> rat \<Rightarrow> world \<Rightarrow> world" where
  "setDailyGoal g u hours w =
     w\<lparr>daily_goals :=
        (if list_ex (goal_of g u) (daily_goals w)
         then map (\<lambda>d. if goal_of g u d
                         then d\<lparr>goal_hours := hours, achieved_hours := 0,
                                goal_session_start := None\<rparr>
                         else d) (daily_goals w)
         else daily_goals w @
           [\<lparr>goal_guild_id = g, goal_user_id = u, goal_hours = hours,
             achieved_hours = 0, goal_session_start = None\<rparr>])\<rparr>"

definition getDailyGoal :: "snowflake \<Rightarrow> snowflake \<Rightarrow> world \<Rightarrow> goal_row option" where
  "getDailyGoal g u w = find (goal_of g u) (daily_goals w)"

definition addAchievedHours :: "snowflake \<Rightarrow> snowflake \<Rightarrow> rat \<Rightarrow> world \<Rightarrow> world" where
  "addAchievedHours g u addHours w =
     w\<lparr>daily_goals :=
        map (\<lambda>d. if goal_of g u d then d\<lparr>achieved_hours := achieved_hours d + addHours\<rparr>
                  else d) (daily_goals w)\<rparr>"

definition getAllDailyGoals :: "world \<Rightarrow> goal_row list" where
  "getAllDailyGoals w = daily_goals w"

definition clearDailyGoals :: "world \<Rightarrow> world" where
  "clearDailyGoals w = w\<lparr>daily_goals := []\<rparr>"

section \<open>The Discord side\<close>

text \<open>
  What the handlers read from Discord at the moment they run: whether the guild is in
  the client's cache (and its name), whether \<^verbatim>\<open>guild.members.fetch\<close> finds the
  member (a rejected fetch is caught and gives \<^verbatim>\<open>null\<close>), the permissions and the
  highest role of the bot's own member, the channel an announcement would go to
  (\<^verbatim>\<open>guild.systemChannel ?? guild.channels.cache.find(...)\<close>), and whether
  \<^verbatim>\<open>member.kick\<close> resolves or rejects. A rejected \<^verbatim>\<open>send\<close> is swallowed by the
  source everywhere, so a send is recorded as attempted and nothing depends on its
  outcome. The bot is a member of every guild it hears from, so
  \<^verbatim>\<open>guild.members.me\<close> is never null.
\<close>

record member =
  highest_role_position :: int

record discord =
  guild_cached :: "snowflake \<Rightarrow> string option"
  fetch_member :: "snowflake \<Rightarrow> snowflake \<Rightarrow> member option"
  bot_can_kick :: "snowflake \<Rightarrow> bool"
  bot_role_position :: "snowflake \<Rightarrow> int"
  announce_channel :: "snowflake \<Rightarrow> snowflake option"
  kick_succeeds :: "snowflake \<Rightarrow> snowflake \<Rightarrow> bool"

section \<open>Periodic check for VC\<close>

definition sampler_elapsed :: "int \<Rightarrow> target_row \<Rightarrow> int" where
  \<comment> \<open>Math.floor((now - s.session_start) / 1000); a null session_start counts as 0\<close>
  "sampler_elapsed now s =
     (now - (case session_start s of None \<Rightarrow> 0 | Some ts \<Rightarrow> ts)) div 1000"

fun sampler_loop :: "discord \<Rightarrow> int \<Rightarrow> target_row list \<Rightarrow> world \<Rightarrow> world" where
  "sampler_loop env now [] w = w"
| "sampler_loop env now (s # ss) w =
     (let elapsed = sampler_elapsed now s;
          total = accumulated_seconds s + elapsed;
          w1 = (case getDailyGoal (guild_id s) (user_id s) w of
                  None \<Rightarrow> w
                | Some dailyGoal \<Rightarrow>
                    addAchievedHours (guild_id s) (user_id s) (of_int elapsed / 3600) w)
      in if total \<ge> target_seconds s then
           (case guild_cached env (guild_id s) of
              None \<Rightarrow> sampler_loop env now ss w1
            | Some guild \<Rightarrow>
                (let w2 = (case fetch_member env (guild_id s) (user_id s) of
                             None \<Rightarrow> w1
                           | Some m \<Rightarrow>
                               emit (MemberSend (guild_id s) (user_id s)
                                       (CongratsTargetHours (of_int (target_seconds s) / 3600))) w1)
                 in sampler_loop env now ss (clearTarget (guild_id s) (user_id s) w2)))
         else sampler_loop env now ss w1)"

definition periodic_check :: "discord \<Rightarrow> int \<Rightarrow> world \<Rightarrow> world" where
  "periodic_check env now w = sampler_loop env now (getAllActiveSessions w) w"

section \<open>Daily reset\<close>

fun reset_loop :: "discord \<Rightarrow> goal_row list \<Rightarrow> world \<Rightarrow> world" where
  "reset_loop env [] w = w"
| "reset_loop env (g # gs) w =
     (if achieved_hours g < goal_hours g then
        (case guild_cached env (goal_guild_id g) of
           None \<Rightarrow> reset_loop env gs w
         | Some guild_name \<Rightarrow>
             (case fetch_member env (goal_guild_id g) (goal_user_id g) of
                None \<Rightarrow> reset_loop env gs w
              | Some m \<Rightarrow>
                  reset_loop env gs
                    (emit (MemberSend (goal_guild_id g) (goal_user_id g)
                             (GoalMissedKicked guild_name (achieved_hours g) (goal_hours g)))
                       (emit (MemberKick (goal_guild_id g) (goal_user_id g)
                                (GoalMissedReason (achieved_hours g) (goal_hours g))) w))))
      else reset_loop env gs w)"

definition daily_reset :: "discord \<Rightarrow> world \<Rightarrow> world" where
  "daily_reset env w =
     (let w1 = reset_loop env (getAllDailyGoals w) w;
          w2 = clearDailyGoals w1;
          w3 = w2\<lparr>todos := []\<rparr>
      in emit (ConsoleLog DailyResetComplete) w3)"

section \<open>Voice state update\<close>

record voice_state_update =
  is_bot :: bool                     \<comment> \<open>newState.member.user.bot\<close>
  vs_guild :: snowflake              \<comment> \<open>newState.guild.id\<close>
  vs_user :: snowflake               \<comment> \<open>newState.id\<close>
  old_channel :: "snowflake option"  \<comment> \<open>oldState.channelId\<close>
  new_channel :: "snowflake option"  \<comment> \<open>newState.channelId\<close>

definition in_channel :: "snowflake option \<Rightarrow> bool" where
  \<comment> \<open>the truthiness of a channelId: null and the empty string are falsy\<close>
  "in_channel c = (case c of None \<Rightarrow> False | Some cid \<Rightarrow> cid \<noteq> [])"

definition leave_elapsed :: "int \<Rightarrow> target_row \<Rightarrow> int" where
  \<comment> \<open>let elapsed = 0; if (row.session_start) elapsed = Math.floor((Date.now() - row.session_start) / 1000);
      the test is JavaScript truthiness, so a session_start of 0 counts as absent\<close>
  "leave_elapsed now row =
     (case session_start row of
        None \<Rightarrow> 0
      | Some ts \<Rightarrow> if ts \<noteq> 0 then (now - ts) div 1000 else 0)"

definition kick_early :: "discord \<Rightarrow> snowflake \<Rightarrow> snowflake \<Rightarrow> target_row \<Rightarrow> world \<Rightarrow> world" where
  \<comment> \<open>the else branch of the completion check: the try block and its catch\<close>
  "kick_early env g u updated w =
     (case fetch_member env g u of
        None \<Rightarrow> w
      | Some m \<Rightarrow>
          if \<not> bot_can_kick env g then
            (case announce_channel env g of
               None \<Rightarrow> w
             | Some c \<Rightarrow> emit (ChannelSend g c (NoKickPermission u)) w)
          else if highest_role_position m \<ge> bot_role_position env g then
            emit (MemberSend g u HierarchyBlocked) w
          else
            (let a = of_int (accumulated_seconds updated) / 3600;
                 t = of_int (target_seconds updated) / 3600;
                 w1 = emit (MemberKick g u (LeftEarlyReason a t)) w
             in if kick_succeeds env g u then
                  clearTarget g u (emit (MemberSend g u (KickedEarly a t)) w1)
                else emit (ConsoleError FailedToKick) w1))"

definition voiceStateUpdate :: "discord \<Rightarrow> int \<Rightarrow> voice_state_update \<Rightarrow> world \<Rightarrow> world" where
  "voiceStateUpdate env now ev w =
     (if is_bot ev then w
      else
        (let guildId = vs_guild ev; userId = vs_user ev in
         case getTarget guildId userId w of
           None \<Rightarrow> w
         | Some row \<Rightarrow>
             (let w1 = (if \<not> in_channel (old_channel ev) \<and> in_channel (new_channel ev)
                        then setSessionStart guildId userId now w else w)
              in if in_channel (old_channel ev) \<and> \<not> in_channel (new_channel ev) then
                   (let elapsed = leave_elapsed now row;
                        w2 = addAccumulated guildId userId elapsed w1;
                        w3 = (case getDailyGoal guildId userId w2 of
                                None \<Rightarrow> w2
                              | Some dailyGoal \<Rightarrow>
                                  addAchievedHours guildId userId (of_int elapsed / 3600) w2)
                    in case getTarget guildId userId w3 of
                         None \<Rightarrow> w3
                       | Some updated \<Rightarrow>
                           if accumulated_seconds updated \<ge> target_seconds updated then
                             clearTarget guildId userId
                               (case fetch_member env guildId userId of
                                  None \<Rightarrow> w3
                                | Some m \<Rightarrow> emit (MemberSend guildId userId CongratsTarget) w3)
                           else kick_early env guildId userId updated w3)
                 else w1)))"

section \<open>JavaScript multiplication\<close>

text \<open>
  \<^verbatim>\<open>minutes * 60\<close> is a product of two doubles: the exact product rounded to the
  nearest double, ties to the even significand (binary64: 53 significant bits, least
  normal exponent \<open>- 1022\<close>, below it the fixed spacing \<open>2 ^ - 1074\<close>). A finite double is
  the rational it denotes. Overflow to \<^verbatim>\<open>Infinity\<close> is not modelled: Discord delivers
  a NUMBER option between \<open>- 2 ^ 53\<close> and \<open>2 ^ 53\<close>, so the product stays below
  \<open>2 ^ 59\<close>.
\<close>

fun bit_length :: "nat \<Rightarrow> nat" where
  \<comment> \<open>the number of binary digits of n\<close>
  "bit_length n = (if n = 0 then 0 else Suc (bit_length (n div 2)))"

declare bit_length.simps [simp del]

definition floor_log2 :: "rat \<Rightarrow> int" where
  \<comment> \<open>for a > 0, the e with 2 ^ e \<le> a < 2 ^ (e + 1)\<close>
  "floor_log2 a =
     (if 1 \<le> a then int (bit_length (nat \<lfloor>a\<rfloor>)) - 1
      else - int (bit_length (nat (\<lceil>1 / a\<rceil> - 1))))"

definition pow2 :: "int \<Rightarrow> rat" where
  "pow2 k = (if 0 \<le> k then 2 ^ nat k else 1 / 2 ^ nat (- k))"

definition round_half_even :: "rat \<Rightarrow> int" where
  "round_half_even n =
     (let f = \<lfloor>n\<rfloor>; d = n - of_int f
      in if d < 1 / 2 then f
         else if 1 / 2 < d then f + 1
         else if even f then f else f + 1)"

definition to_double :: "rat \<Rightarrow> rat" where
  \<comment> \<open>the double nearest to x: x is scaled by the spacing q of the doubles around it,
      rounded to an integer, and scaled back\<close>
  "to_double x =
     (if x = 0 then 0
      else
        (let a = \<bar>x\<bar>;
             e = max (floor_log2 a) (- 1022);
             q = pow2 (e - 52)
         in sgn x * (of_int (round_half_even (a / q)) * q)))"

definition js_times :: "rat \<Rightarrow> rat \<Rightarrow> rat" where
  "js_times x y = to_double (x * y)"

section \<open>Slash commands\<close>

datatype command =
    SetTargetCmd rat        \<comment> \<open>/settarget minutes\<close>
  | ClearTargetCmd          \<comment> \<open>/cleartarget\<close>
  | AddTodoCmd string       \<comment> \<open>/addtodo task\<close>
  | ListTodosCmd            \<comment> \<open>/listtodos\<close>
  | DoneTodoCmd int         \<comment> \<open>/donetodo id\<close>
  | DelTodoCmd int          \<comment> \<open>/deltodo id\<close>
  | SetGoalCmd rat          \<comment> \<open>/setgoal hours\<close>
  | OtherCmd string         \<comment> \<open>any other commandName\<close>

record interaction =
  is_chat_input :: bool               \<comment> \<open>interaction.isChatInputCommand()\<close>
  in_guild :: "snowflake option"      \<comment> \<open>interaction.guild, by its id\<close>
  by_user :: snowflake                \<comment> \<open>interaction.user.id\<close>
  cmd :: command

fun run_command :: "snowflake \<Rightarrow> snowflake \<Rightarrow> command \<Rightarrow> world \<Rightarrow> world" where
  "run_command g u (SetTargetCmd minutes) w =
     (if minutes \<le> 0 then emit (Reply PositiveMinutes) w
      else emit (Reply (TargetSet minutes)) (setTarget g u (floor (js_times minutes 60)) w))"
| "run_command g u ClearTargetCmd w = emit (Reply TargetCleared) (clearTarget g u w)"
| "run_command g u (AddTodoCmd txt) w = emit (Reply (TaskAdded txt)) (addTodo g u txt w)"
| "run_command g u ListTodosCmd w =
     (let ts = getTodos g u w
      in if length ts = 0 then emit (Reply NoTasks) w else emit (Reply (TaskList ts)) w)"
| "run_command g u (DoneTodoCmd n) w = emit (Reply (TaskDone n)) (completeTodo g u n w)"
| "run_command g u (DelTodoCmd n) w = emit (Reply (TaskDeleted n)) (deleteTodo g u n w)"
| "run_command g u (SetGoalCmd hours) w =
     (if hours \<le> 0 then emit (Reply PositiveHours) w
      else emit (Reply (GoalSet hours)) (setDailyGoal g u hours w))"
| "run_command g u (OtherCmd name) w = w"

definition interactionCreate :: "interaction \<Rightarrow> world \<Rightarrow> world" where
  "interactionCreate i w =
     (if \<not> is_chat_input i then w
      else case in_guild i of
             None \<Rightarrow> emit (Reply ServersOnly) w
           | Some g \<Rightarrow> run_command g (by_user i) (cmd i) w)"

section \<open>The program as a sequence of entry points\<close>

datatype entry =
    VoiceStateUpdate discord int voice_state_update
  | PeriodicCheck discord int
  | DailyReset discord
  | InteractionCreate interaction

fun step :: "entry \<Rightarrow> world \<Rightarrow> world" where
  "step (VoiceStateUpdate env now ev) w = voiceStateUpdate env now ev w"
| "step (PeriodicCheck env now) w = periodic_check env now w"
| "step (DailyReset env) w = daily_reset env w"
| "step (InteractionCreate i) w = interactionCreate i w"

definition run :: "entry list \<Rightarrow> world \<Rightarrow> world" where
  "run es w = fold step es w"

definition run_ticks :: "discord \<Rightarrow> int list \<Rightarrow> world \<Rightarrow> world" where
  \<comment> \<open>consecutive firings of the setInterval callback, at the given values of Date.now()\<close>
  "run_ticks env nows w = fold (periodic_check env) nows w"

definition empty_store :: world where
  \<comment> \<open>the tables as CREATE TABLE IF NOT EXISTS leaves a fresh database\<close>
  "empty_store = \<lparr>targets = [], todos = [], todos_seq = 0, daily_goals = [], effects = []\<rparr>"

section \<open>Notions used in the statements\<close>

definition sampler_clears :: "discord \<Rightarrow> int \<Rightarrow> target_row \<Rightarrow> bool" where
  \<comment> \<open>when the loop body of the periodic check reaches clearTarget for the session s:
      the projected total reaches the target and the guild is in the client's cache\<close>
  "sampler_clears env now s =
     (accumulated_seconds s + sampler_elapsed now s \<ge> target_seconds s \<and>
      guild_cached env (guild_id s) \<noteq> None)"

definition target_keys_distinct :: "world \<Rightarrow> bool" where
  \<comment> \<open>PRIMARY KEY(guild_id, user_id) of the targets table\<close>
  "target_keys_distinct w = distinct (map (\<lambda>r. (guild_id r, user_id r)) (targets w))"

definition clamped_elapsed :: "int \<Rightarrow> int \<Rightarrow> int" where
  \<comment> \<open>the elapsed time in the words of the specification:
      floor((now - sessionStart) / 1000), clamped to be non-negative\<close>
  "clamped_elapsed now ts = max 0 ((now - ts) div 1000)"

definition fresh_effects :: "world \<Rightarrow> world \<Rightarrow> event list" where
  \<comment> \<open>what was sent out between the world before and the world after\<close>
  "fresh_effects w w' = drop (length (effects w)) (effects w')"

fun replaces_target :: "entry \<Rightarrow> bool" where
  \<comment> \<open>the entry is a /settarget command\<close>
  "replaces_target (InteractionCreate i) = (case cmd i of SetTargetCmd m \<Rightarrow> True | _ \<Rightarrow> False)"
| "replaces_target _ = False"

fun clock_not_behind :: "entry \<Rightarrow> world \<Rightarrow> bool" where
  \<comment> \<open>at a leave, Date.now() is not earlier than the session_start stored for the
      member; every other entry point passes\<close>
  "clock_not_behind (VoiceStateUpdate env now ev) w =
     (if in_channel (old_channel ev) \<and> \<not> in_channel (new_channel ev) then
        (case getTarget (vs_guild ev) (vs_user ev) w of
           None \<Rightarrow> True
         | Some row \<Rightarrow> (case session_start row of None \<Rightarrow> True | Some ts \<Rightarrow> ts \<le> now))
      else True)"
| "clock_not_behind _ w = True"

fun folded_elapsed :: "entry \<Rightarrow> target_row \<Rightarrow> int" where
  \<comment> \<open>the elapsed time a voice state update computes from the row it read\<close>
  "folded_elapsed (VoiceStateUpdate env now ev) r = leave_elapsed now r"
| "folded_elapsed _ r = 0"

fun presence_or_tick :: "entry \<Rightarrow> bool" where
  "presence_or_tick (VoiceStateUpdate env now ev) = True"
| "presence_or_tick (PeriodicCheck env now) = True"
| "presence_or_tick _ = False"

definition goal_idle :: "goal_row \<Rightarrow> bool" where
  "goal_idle d = (goal_session_start d = None)"

section \<open>Concrete worlds for evaluation\<close>

definition studying :: world where
  \<comment> \<open>one member with a target of one hour, twenty minutes banked, in a session that
      started at 5000 ms, and a daily goal of two hours\<close>
  "studying =
     \<lparr>targets = [\<lparr>guild_id = ''g1'', user_id = ''u1'', target_seconds = 3600,
                  accumulated_seconds = 1200, session_start = Some 5000\<rparr>],
      todos = [], todos_seq = 0,
      daily_goals = [\<lparr>goal_guild_id = ''g1'', goal_user_id = ''u1'', goal_hours = 2,
                      achieved_hours = 0, goal_session_start = None\<rparr>],
      effects = []\<rparr>"

definition helpful_discord :: discord where
  \<comment> \<open>every guild cached, every member fetched with a role below the bot's, the bot may
      kick and every kick resolves\<close>
  "helpful_discord =
     \<lparr>guild_cached = (\<lambda>g. Some ''Study Hall''),
      fetch_member = (\<lambda>g u. Some \<lparr>highest_role_position = 1\<rparr>),
      bot_can_kick = (\<lambda>g. True),
      bot_role_position = (\<lambda>g. 5),
      announce_channel = (\<lambda>g. Some ''general''),
      kick_succeeds = (\<lambda>g u. True)\<rparr>"

definition goal_without_target :: world where
  \<comment> \<open>member u2 has a daily goal and no target; member u1 has a session open\<close>
  "goal_without_target =
     \<lparr>targets = [\<lparr>guild_id = ''g1'', user_id = ''u1'', target_seconds = 3600,
                  accumulated_seconds = 1200, session_start = Some 5000\<rparr>],
      todos = [], todos_seq = 0,
      daily_goals = [\<lparr>goal_guild_id = ''g1'', goal_user_id = ''u2'', goal_hours = 2,
                      achieved_hours = 1 / 2, goal_session_start = None\<rparr>],
      effects = []\<rparr>"

definition leave_vc :: voice_state_update where
  \<comment> \<open>member u1 of guild g1 leaves the voice channel\<close>
  "leave_vc = \<lparr>is_bot = False, vs_guild = ''g1'', vs_user = ''u1'',
               old_channel = Some ''vc'', new_channel = None\<rparr>"

definition join_vc :: voice_state_update where
  \<comment> \<open>member u1 of guild g1 joins a voice channel\<close>
  "join_vc = \<lparr>is_bot = False, vs_guild = ''g1'', vs_user = ''u1'',
              old_channel = None, new_channel = Some ''vc''\<rparr>"

definition slash :: "command \<Rightarrow> interaction" where
  \<comment> \<open>a slash command given by member u1 in guild g1\<close>
  "slash c = \<lparr>is_chat_input = True, in_guild = Some ''g1'', by_user = ''u1'', cmd = c\<rparr>"

definition short_day :: "entry list" where
  \<comment> \<open>a target of 60 minutes, a goal of 2 hours, then join, one tick and leave\<close>
  "short_day =
     [InteractionCreate (slash (SetTargetCmd 60)),
      InteractionCreate (slash (SetGoalCmd 2)),
      VoiceStateUpdate helpful_discord 5000 join_vc,
      PeriodicCheck helpful_discord 15000,
      VoiceStateUpdate helpful_discord 65000 leave_vc]"

definition uncached_discord :: discord where
  \<comment> \<open>no guild is in the client's cache\<close>
  "uncached_discord = helpful_discord\<lparr>guild_cached := (\<lambda>g. None)\<rparr>"

definition memberless_discord :: discord where
  \<comment> \<open>no member can be fetched\<close>
  "memberless_discord = helpful_discord\<lparr>fetch_member := (\<lambda>g u. None)\<rparr>"

definition powerless_discord :: discord where
  \<comment> \<open>the bot lacks the kick permission and the guild has no channel to announce in\<close>
  "powerless_discord =
     helpful_discord\<lparr>bot_can_kick := (\<lambda>g. False), announce_channel := (\<lambda>g. None)\<rparr>"

definition rejecting_discord :: discord where
  \<comment> \<open>every member.kick rejects\<close>
  "rejecting_discord = helpful_discord\<lparr>kick_succeeds := (\<lambda>g u. False)\<rparr>"

definition two_goals :: world where
  \<comment> \<open>one member at 3 of 5 hours, one at 5 of 5 hours, and a to-do item each\<close>
  "two_goals =
     \<lparr>targets = [],
      todos = [\<lparr>todo_guild_id = ''g1'', todo_user_id = ''u1'', task_id = 1,
                task = ''read'', completed = 0\<rparr>,
               \<lparr>todo_guild_id = ''g1'', todo_user_id = ''u2'', task_id = 2,
                task = ''write'', completed = 1\<rparr>],
      todos_seq = 2,
      daily_goals = [\<lparr>goal_guild_id = ''g1'', goal_user_id = ''u1'', goal_hours = 5,
                      achieved_hours = 3, goal_session_start = None\<rparr>,
                     \<lparr>goal_guild_id = ''g1'', goal_user_id = ''u2'', goal_hours = 5,
                      achieved_hours = 5, goal_session_start = None\<rparr>],
      effects = []\<rparr>"

section \<open>Field-wise effect of the helpers\<close>

lemma emit_fields [simp]:
  "targets (emit ev w) = targets w"
  "daily_goals (emit ev w) = daily_goals w"
  "todos (emit ev w) = todos w"
  "todos_seq (emit ev w) = todos_seq w"
  "effects (emit ev w) = effects w @ [ev]"
  by (simp_all add: emit_def)

lemma clearTarget_fields [simp]:
  "targets (clearTarget g u w) = filter (\<lambda>r. \<not> target_of g u r) (targets w)"
  "daily_goals (clearTarget g u w) = daily_goals w"
  "todos (clearTarget g u w) = todos w"
  "todos_seq (clearTarget g u w) = todos_seq w"
  "effects (clearTarget g u w) = effects w"
  by (simp_all add: clearTarget_def)

lemma addAchievedHours_fields [simp]:
  "targets (addAchievedHours g u h w) = targets w"
  "daily_goals (addAchievedHours g u h w) =
     map (\<lambda>d. if goal_of g u d then d\<lparr>achieved_hours := achieved_hours d + h\<rparr> else d)
       (daily_goals w)"
  "todos (addAchievedHours g u h w) = todos w"
  "todos_seq (addAchievedHours g u h w) = todos_seq w"
  "effects (addAchievedHours g u h w) = effects w"
  by (simp_all add: addAchievedHours_def)

lemma addAccumulated_fields [simp]:
  "targets (addAccumulated g u e w) =
     map (\<lambda>r. if target_of g u r
               then r\<lparr>accumulated_seconds := accumulated_seconds r + e, session_start := None\<rparr>
               else r) (targets w)"
  "daily_goals (addAccumulated g u e w) = daily_goals w"
  "todos (addAccumulated g u e w) = todos w"
  "todos_seq (addAccumulated g u e w) = todos_seq w"
  "effects (addAccumulated g u e w) = effects w"
  by (simp_all add: addAccumulated_def)

lemma setSessionStart_fields [simp]:
  "targets (setSessionStart g u ts w) =
     map (\<lambda>r. if target_of g u r then r\<lparr>session_start := Some ts\<rparr> else r) (targets w)"
  "daily_goals (setSessionStart g u ts w) = daily_goals w"
  "todos (setSessionStart g u ts w) = todos w"
  "todos_seq (setSessionStart g u ts w) = todos_seq w"
  "effects (setSessionStart g u ts w) = effects w"
  by (simp_all add: setSessionStart_def)

lemma find_None_map_id:
  "find P xs = None \<Longrightarrow> map (\<lambda>x. if P x then f x else x) xs = xs"
  by (induction xs) (auto split: if_splits)

lemma addAchievedHours_absent:
  "getDailyGoal g u w = None \<Longrightarrow> addAchievedHours g u h w = w"
  by (simp add: getDailyGoal_def addAchievedHours_def find_None_map_id)

lemma if_goal_then_add:
  "(case getDailyGoal g u w of None \<Rightarrow> w | Some dailyGoal \<Rightarrow> addAchievedHours g u h w)
     = addAchievedHours g u h w"
  by (simp add: addAchievedHours_absent split: option.splits)

section \<open>The loops in closed form\<close>

lemma sampler_loop_daily_goals:
  "daily_goals (sampler_loop env now ss w) =
     map (\<lambda>d. d\<lparr>achieved_hours := achieved_hours d +
                  (\<Sum>s\<leftarrow>filter (target_of (goal_guild_id d) (goal_user_id d)) ss.
                      of_int (sampler_elapsed now s) / 3600)\<rparr>)
       (daily_goals w)"
proof (induction ss arbitrary: w)
  case Nil
  show ?case by (simp add: map_idI)
next
  case (Cons s ss)
  show ?case
    by (simp add: Let_def if_goal_then_add Cons.IH goal_of_def target_of_def add.assoc
             split: option.splits cong: map_cong)
qed

lemma sampler_loop_targets:
  "targets (sampler_loop env now ss w) =
     filter (\<lambda>r. \<not> list_ex (\<lambda>s. sampler_clears env now s \<and>
                                  target_of (guild_id s) (user_id s) r) ss)
       (targets w)"
proof (induction ss arbitrary: w)
  case Nil
  show ?case by simp
next
  case (Cons s ss)
  show ?case
    by (auto simp add: Let_def if_goal_then_add Cons.IH sampler_clears_def
             split: option.splits intro!: filter_cong)
qed

lemma sampler_loop_effects:
  "effects (sampler_loop env now ss w) =
     effects w @
     concat (map (\<lambda>s. if sampler_clears env now s \<and>
                          fetch_member env (guild_id s) (user_id s) \<noteq> None
                       then [MemberSend (guild_id s) (user_id s)
                               (CongratsTargetHours (of_int (target_seconds s) / 3600))]
                       else []) ss)"
proof (induction ss arbitrary: w)
  case Nil
  show ?case by simp
next
  case (Cons s ss)
  show ?case
    by (simp add: Let_def if_goal_then_add Cons.IH sampler_clears_def
             split: option.splits)
qed

lemma sampler_loop_todos:
  "todos (sampler_loop env now ss w) = todos w \<and>
   todos_seq (sampler_loop env now ss w) = todos_seq w"
proof (induction ss arbitrary: w)
  case Nil
  show ?case by simp
next
  case (Cons s ss)
  show ?case
    by (simp add: Let_def if_goal_then_add Cons.IH split: option.splits)
qed

lemma reset_loop_store:
  "targets (reset_loop env gs w) = targets w \<and>
   daily_goals (reset_loop env gs w) = daily_goals w \<and>
   todos (reset_loop env gs w) = todos w \<and>
   todos_seq (reset_loop env gs w) = todos_seq w"
  by (induction gs arbitrary: w) (simp_all split: option.splits)

lemma reset_loop_effects:
  "effects (reset_loop env gs w) =
     effects w @
     concat (map (\<lambda>g. if achieved_hours g < goal_hours g then
                         (case guild_cached env (goal_guild_id g) of
                            None \<Rightarrow> []
                          | Some guild_name \<Rightarrow>
                              (case fetch_member env (goal_guild_id g) (goal_user_id g) of
                                 None \<Rightarrow> []
                               | Some m \<Rightarrow>
                                   [MemberKick (goal_guild_id g) (goal_user_id g)
                                      (GoalMissedReason (achieved_hours g) (goal_hours g)),
                                    MemberSend (goal_guild_id g) (goal_user_id g)
                                      (GoalMissedKicked guild_name (achieved_hours g) (goal_hours g))]))
                       else []) gs)"
  by (induction gs arbitrary: w) (simp_all split: option.splits)

section \<open>Setting a target\<close>

lemma setTarget_fields [simp]:
  "daily_goals (setTarget g u s w) = daily_goals w"
  "todos (setTarget g u s w) = todos w"
  "todos_seq (setTarget g u s w) = todos_seq w"
  "effects (setTarget g u s w) = effects w"
  by (simp_all add: setTarget_def)

lemma replaced_row:
  "target_of g u r \<Longrightarrow>
     r\<lparr>target_seconds := s, accumulated_seconds := 0, session_start := None\<rparr> =
     \<lparr>guild_id = g, user_id = u, target_seconds = s, accumulated_seconds = 0,
      session_start = None\<rparr>"
  by (cases r) (simp add: target_of_def)

lemma find_map_replace:
  "list_ex P xs \<Longrightarrow> (\<And>x. P x \<Longrightarrow> f x = y) \<Longrightarrow> P y \<Longrightarrow>
     find P (map (\<lambda>x. if P x then f x else x) xs) = Some y"
  by (induction xs) auto

lemma find_append_new:
  "\<not> list_ex P xs \<Longrightarrow> P y \<Longrightarrow> find P (xs @ [y]) = Some y"
  by (induction xs) auto

lemma getTarget_setTarget:
  "getTarget g u (setTarget g u s w) =
     Some \<lparr>guild_id = g, user_id = u, target_seconds = s, accumulated_seconds = 0,
           session_start = None\<rparr>"
proof (cases "list_ex (target_of g u) (targets w)")
  case True
  have new: "target_of g u \<lparr>guild_id = g, user_id = u, target_seconds = s,
      accumulated_seconds = 0, session_start = None\<rparr>"
    by (simp add: target_of_def)
  from True new show ?thesis
    by (simp add: getTarget_def setTarget_def find_map_replace replaced_row)
next
  case False
  have new: "target_of g u \<lparr>guild_id = g, user_id = u, target_seconds = s,
      accumulated_seconds = 0, session_start = None\<rparr>"
    by (simp add: target_of_def)
  from False new show ?thesis
    by (simp add: getTarget_def setTarget_def find_append_new)
qed

lemma setTarget_rows:
  "r \<in> set (targets (setTarget g u s w)) \<Longrightarrow> target_of g u r \<Longrightarrow>
     r = \<lparr>guild_id = g, user_id = u, target_seconds = s, accumulated_seconds = 0,
          session_start = None\<rparr>"
  by (auto simp add: setTarget_def replaced_row list_ex_iff split: if_splits)

lemma setTarget_others:
  "filter (\<lambda>r. \<not> target_of g u r) (targets (setTarget g u s w)) =
     filter (\<lambda>r. \<not> target_of g u r) (targets w)"
proof -
  have "filter (\<lambda>r. \<not> target_of g u r)
          (map (\<lambda>r. if target_of g u r
                     then r\<lparr>target_seconds := s, accumulated_seconds := 0, session_start := None\<rparr>
                     else r) xs) = filter (\<lambda>r. \<not> target_of g u r) xs" for xs
    by (induction xs) (auto simp add: target_of_def)
  then show ?thesis
    by (simp add: setTarget_def target_of_def)
qed

text \<open>
  The rounding at work: 4.1, 0.3 and 0.1 are the doubles nearest to those decimals.
  \<^verbatim>\<open>4.1 * 60\<close> is \<^verbatim>\<open>245.99999999999997\<close> and floors to 245, while
  \<^verbatim>\<open>0.3 * 60\<close> and \<^verbatim>\<open>0.1 * 60\<close> round up to 18 and 6.
\<close>

lemma js_times_values:
  "\<lfloor>js_times (2308094809027379 / 562949953421312) 60\<rfloor> = 245"
  "js_times (5404319552844595 / 18014398509481984) 60 = 18"
  "js_times (3602879701896397 / 36028797018963968) 60 = 6"
  "js_times (5 / 2) 60 = 150"
  "js_times 60 60 = 3600"
  by code_simp+

text \<open>
  Claim C8. A /settarget command given in a guild with \<open>minutes \<le> 0\<close> is answered with
  "Provide a positive number of minutes." and leaves the three tables as they were. With
  \<open>minutes > 0\<close> the member's target afterwards is the row with
  \<open>target_seconds = floor (minutes * 60)\<close>, the product being JavaScript's,
  \<open>accumulated_seconds = 0\<close> and no \<open>session_start\<close>, whatever the member had banked
  or had open before; no other row of the member's key remains, the rows of other
  members are untouched, and so are the daily goals and the to-do items.
\<close>

theorem settarget_command:
  assumes "is_chat_input i" and "in_guild i = Some g" and "by_user i = u"
    and "cmd i = SetTargetCmd minutes"
  shows "(minutes \<le> 0 \<longrightarrow>
            targets (interactionCreate i w) = targets w \<and>
            daily_goals (interactionCreate i w) = daily_goals w \<and>
            todos (interactionCreate i w) = todos w \<and>
            todos_seq (interactionCreate i w) = todos_seq w \<and>
            effects (interactionCreate i w) = effects w @ [Reply PositiveMinutes]) \<and>
         (0 < minutes \<longrightarrow>
            getTarget g u (interactionCreate i w) =
              Some \<lparr>guild_id = g, user_id = u, target_seconds = \<lfloor>js_times minutes 60\<rfloor>,
                    accumulated_seconds = 0, session_start = None\<rparr> \<and>
            (\<forall>r \<in> set (targets (interactionCreate i w)).
               target_of g u r \<longrightarrow>
                 r = \<lparr>guild_id = g, user_id = u, target_seconds = \<lfloor>js_times minutes 60\<rfloor>,
                      accumulated_seconds = 0, session_start = None\<rparr>) \<and>
            filter (\<lambda>r. \<not> target_of g u r) (targets (interactionCreate i w)) =
              filter (\<lambda>r. \<not> target_of g u r) (targets w) \<and>
            daily_goals (interactionCreate i w) = daily_goals w \<and>
            todos (interactionCreate i w) = todos w)"
proof (cases "minutes \<le> 0")
  case True
  with assms show ?thesis by (simp add: interactionCreate_def)
next
  case False
  with assms have run: "interactionCreate i w =
      emit (Reply (TargetSet minutes)) (setTarget g u \<lfloor>js_times minutes 60\<rfloor> w)"
    by (simp add: interactionCreate_def)
  have get: "getTarget g u (emit ev w') = getTarget g u w'" for ev w'
    by (simp add: getTarget_def)
  from False show ?thesis
    unfolding run
    by (auto simp add: get getTarget_setTarget setTarget_others dest: setTarget_rows)
qed

text \<open>
  The command at work on a member who has 1200 seconds banked and a session open:
  zero minutes changes nothing, two and a half minutes leave a fresh target of 150
  seconds, and 4.1 minutes one of 245 seconds.
\<close>

theorem settarget_command_witness:
  "targets (interactionCreate
      \<lparr>is_chat_input = True, in_guild = Some ''g1'', by_user = ''u1'',
       cmd = SetTargetCmd 0\<rparr> studying) = targets studying \<and>
   getTarget ''g1'' ''u1'' (interactionCreate
      \<lparr>is_chat_input = True, in_guild = Some ''g1'', by_user = ''u1'',
       cmd = SetTargetCmd (5 / 2)\<rparr> studying) =
     Some \<lparr>guild_id = ''g1'', user_id = ''u1'', target_seconds = 150,
           accumulated_seconds = 0, session_start = None\<rparr> \<and>
   getTarget ''g1'' ''u1'' (interactionCreate
      \<lparr>is_chat_input = True, in_guild = Some ''g1'', by_user = ''u1'',
       cmd = SetTargetCmd (2308094809027379 / 562949953421312)\<rparr> studying) =
     Some \<lparr>guild_id = ''g1'', user_id = ''u1'', target_seconds = 245,
           accumulated_seconds = 0, session_start = None\<rparr>"
proof -
  let ?i = "\<lambda>m. \<lparr>is_chat_input = True, in_guild = Some ''g1'', by_user = ''u1'',
                 cmd = SetTargetCmd m\<rparr>"
  have zero: "targets (interactionCreate (?i 0) studying) = targets studying"
    using settarget_command [of "?i 0" "''g1''" "''u1''" 0 studying]
    by simp
  have half: "getTarget ''g1'' ''u1'' (interactionCreate (?i (5 / 2)) studying) =
     Some \<lparr>guild_id = ''g1'', user_id = ''u1'', target_seconds = 150,
           accumulated_seconds = 0, session_start = None\<rparr>"
    using settarget_command [of "?i (5 / 2)" "''g1''" "''u1''" "5 / 2" studying]
    by (simp add: js_times_values)
  have pos: "(0::rat) < 2308094809027379 / 562949953421312"
    by simp
  have tenth: "getTarget ''g1'' ''u1''
      (interactionCreate (?i (2308094809027379 / 562949953421312)) studying) =
     Some \<lparr>guild_id = ''g1'', user_id = ''u1'', target_seconds = 245,
           accumulated_seconds = 0, session_start = None\<rparr>"
    using settarget_command [of "?i (2308094809027379 / 562949953421312)" "''g1''" "''u1''"
        "2308094809027379 / 562949953421312" studying] pos
    by (simp only: js_times_values interaction.simps simp_thms)
  from zero half tenth show ?thesis
    by (simp only: simp_thms)
qed

section \<open>Reading a target after each helper\<close>

lemma getTarget_None_iff:
  "getTarget g u w = None \<longleftrightarrow> (\<forall>r \<in> set (targets w). \<not> target_of g u r)"
  by (auto simp add: getTarget_def find_None_iff)

lemma getTarget_emit [simp]: "getTarget g u (emit ev w) = getTarget g u w"
  by (simp add: getTarget_def)

lemma getTarget_addAchievedHours [simp]:
  "getTarget g u (addAchievedHours g' u' h w) = getTarget g u w"
  by (simp add: getTarget_def)

lemma find_map_same_key:
  "(\<And>x. P (f x) = P x) \<Longrightarrow>
     find P (map (\<lambda>x. if Q x then f x else x) xs) =
       map_option (\<lambda>x. if Q x then f x else x) (find P xs)"
  by (induction xs) auto

lemma getTarget_addAccumulated:
  "getTarget g u (addAccumulated g' u' e w) =
     map_option (\<lambda>r. if target_of g' u' r
                      then r\<lparr>accumulated_seconds := accumulated_seconds r + e,
                             session_start := None\<rparr>
                      else r) (getTarget g u w)"
  by (simp add: getTarget_def find_map_same_key target_of_def)

lemma getTarget_setSessionStart:
  "getTarget g u (setSessionStart g' u' ts w) =
     map_option (\<lambda>r. if target_of g' u' r then r\<lparr>session_start := Some ts\<rparr> else r)
       (getTarget g u w)"
  by (simp add: getTarget_def find_map_same_key target_of_def)

lemma find_filter_other:
  "(\<And>x. P x \<Longrightarrow> Q x) \<Longrightarrow> find P (filter Q xs) = find P xs"
  by (induction xs) auto

lemma find_filter_self: "find P (filter (\<lambda>x. \<not> P x) xs) = None"
  by (induction xs) auto

lemma getTarget_clearTarget:
  "getTarget g u (clearTarget g' u' w) =
     (if g = g' \<and> u = u' then None else getTarget g u w)"
proof (cases "g = g' \<and> u = u'")
  case True
  then show ?thesis by (simp add: getTarget_def find_filter_self)
next
  case False
  then have "find (target_of g u) (filter (\<lambda>r. \<not> target_of g' u' r) (targets w)) =
      find (target_of g u) (targets w)"
    by (intro find_filter_other) (auto simp add: target_of_def)
  with False show ?thesis by (auto simp add: getTarget_def)
qed

lemma kick_early_daily_goals [simp]:
  "daily_goals (kick_early env g u upd w) = daily_goals w"
  by (simp add: kick_early_def Let_def split: option.splits)

lemma kick_early_todos [simp]:
  "todos (kick_early env g u upd w) = todos w"
  "todos_seq (kick_early env g u upd w) = todos_seq w"
  by (simp_all add: kick_early_def Let_def split: option.splits)

lemma getTarget_kick_early:
  "getTarget g u (kick_early env g' u' upd w) = getTarget g u w \<or>
   getTarget g u (kick_early env g' u' upd w) = None"
  by (simp add: kick_early_def Let_def getTarget_clearTarget split: option.splits)

text \<open>The handler without a target row for the member does nothing at all.\<close>

lemma voiceStateUpdate_no_target:
  "getTarget (vs_guild ev) (vs_user ev) w = None \<Longrightarrow> voiceStateUpdate env now ev w = w"
  by (simp add: voiceStateUpdate_def Let_def)

lemma voiceStateUpdate_daily_goals:
  "daily_goals (voiceStateUpdate env now ev w) = daily_goals w \<or>
   (getTarget (vs_guild ev) (vs_user ev) w \<noteq> None \<and>
    (\<exists>h. daily_goals (voiceStateUpdate env now ev w) =
       daily_goals (addAchievedHours (vs_guild ev) (vs_user ev) h w)))"
proof (cases "getTarget (vs_guild ev) (vs_user ev) w")
  case None
  then show ?thesis by (simp add: voiceStateUpdate_no_target)
next
  case (Some row)
  have "\<exists>h. map (\<lambda>d. if goal_of (vs_guild ev) (vs_user ev) d
                    then d\<lparr>achieved_hours := achieved_hours d + x\<rparr> else d) (daily_goals w) =
             map (\<lambda>d. if goal_of (vs_guild ev) (vs_user ev) d
                    then d\<lparr>achieved_hours := achieved_hours d + h\<rparr> else d) (daily_goals w)" for x
    by blast
  with Some show ?thesis
    by (simp add: voiceStateUpdate_def Let_def if_goal_then_add split: option.splits)
qed

lemma voiceStateUpdate_todos:
  "todos (voiceStateUpdate env now ev w) = todos w \<and>
   todos_seq (voiceStateUpdate env now ev w) = todos_seq w"
  by (simp add: voiceStateUpdate_def Let_def if_goal_then_add split: option.splits)

section \<open>A member without a target\<close>

lemma kick_early_keeps_absent:
  "getTarget g u w = None \<Longrightarrow> getTarget g u (kick_early env g' u' upd w) = None"
  using getTarget_kick_early [of g u env g' u' upd w] by auto

lemma voiceStateUpdate_keeps_absent:
  assumes "getTarget g u w = None"
  shows "getTarget g u (voiceStateUpdate env now ev w) = None"
proof (cases "getTarget (vs_guild ev) (vs_user ev) w")
  case None
  with assms show ?thesis by (simp add: voiceStateUpdate_no_target)
next
  case (Some row)
  from assms show ?thesis
    by (simp add: voiceStateUpdate_def Let_def if_goal_then_add getTarget_addAccumulated
          getTarget_setSessionStart getTarget_clearTarget kick_early_keeps_absent
          split: option.splits)
qed

lemma filter_goal_other_key:
  "(g, u) \<noteq> (g', u') \<Longrightarrow>
     filter (goal_of g u) (daily_goals (addAchievedHours g' u' h w)) =
     filter (goal_of g u) (daily_goals w)"
proof -
  assume ne: "(g, u) \<noteq> (g', u')"
  have "filter (goal_of g u)
          (map (\<lambda>d. if goal_of g' u' d then d\<lparr>achieved_hours := achieved_hours d + h\<rparr> else d) ds)
        = filter (goal_of g u) ds" for ds
    using ne by (induction ds) (auto simp add: goal_of_def)
  then show ?thesis by simp
qed

lemma voiceStateUpdate_goals_without_target:
  assumes "getTarget g u w = None"
  shows "filter (goal_of g u) (daily_goals (voiceStateUpdate env now ev w)) =
         filter (goal_of g u) (daily_goals w)"
proof -
  from voiceStateUpdate_daily_goals [of env now ev w]
  consider "daily_goals (voiceStateUpdate env now ev w) = daily_goals w"
    | h where "getTarget (vs_guild ev) (vs_user ev) w \<noteq> None"
        "daily_goals (voiceStateUpdate env now ev w) =
           daily_goals (addAchievedHours (vs_guild ev) (vs_user ev) h w)"
    by blast
  then show ?thesis
  proof cases
    case 1
    then show ?thesis by simp
  next
    case 2
    with assms have "(g, u) \<noteq> (vs_guild ev, vs_user ev)" by auto
    from filter_goal_other_key [OF this] 2(2) show ?thesis by simp
  qed
qed

lemma periodic_check_keeps_absent:
  "getTarget g u w = None \<Longrightarrow> getTarget g u (periodic_check env now w) = None"
  by (simp add: getTarget_None_iff periodic_check_def sampler_loop_targets)

lemma no_session_without_target:
  "getTarget g u w = None \<Longrightarrow> filter (target_of g u) (getAllActiveSessions w) = []"
  by (auto simp add: getTarget_None_iff getAllActiveSessions_def filter_empty_conv)

lemma periodic_check_goals_without_target:
  assumes "getTarget g u w = None"
  shows "filter (goal_of g u) (daily_goals (periodic_check env now w)) =
         filter (goal_of g u) (daily_goals w)"
proof -
  have "filter (goal_of g u)
          (map (\<lambda>d. d\<lparr>achieved_hours := achieved_hours d +
                  (\<Sum>s\<leftarrow>filter (target_of (goal_guild_id d) (goal_user_id d)) ss.
                      of_int (sampler_elapsed now s) / 3600)\<rparr>) ds)
        = filter (goal_of g u) ds"
    if "filter (target_of g u) ss = []" for ss ds
    using that by (induction ds) (auto simp add: goal_of_def)
  with no_session_without_target [OF assms] show ?thesis
    by (simp add: periodic_check_def sampler_loop_daily_goals)
qed

lemma step_without_target:
  assumes "getTarget g u w = None" and "presence_or_tick e"
  shows "filter (goal_of g u) (daily_goals (step e w)) = filter (goal_of g u) (daily_goals w) \<and>
         getTarget g u (step e w) = None"
  using assms
  by (cases e)
     (simp_all add: voiceStateUpdate_keeps_absent voiceStateUpdate_goals_without_target
        periodic_check_keeps_absent periodic_check_goals_without_target)

text \<open>
  Claim C9. For a member who has no target row, no sequence of voice state updates (of
  any member) and periodic checks changes that member's daily goal rows, and the member
  still has no target afterwards: the handler returns at \<^verbatim>\<open>if (!row) return\<close>, and
  the periodic check adds hours only for the keys of the sessions it fetched from the
  targets table.
\<close>

theorem daily_goal_untouched_without_target:
  assumes "getTarget g u w = None" and "list_all presence_or_tick es"
  shows "filter (goal_of g u) (daily_goals (run es w)) = filter (goal_of g u) (daily_goals w) \<and>
         getTarget g u (run es w) = None"
  using assms
proof (induction es arbitrary: w)
  case Nil
  then show ?case by (simp add: run_def)
next
  case (Cons e es)
  from Cons.prems have e: "presence_or_tick e" and es: "list_all presence_or_tick es"
    by simp_all
  from step_without_target [OF Cons.prems(1) e]
  have keep: "filter (goal_of g u) (daily_goals (step e w)) = filter (goal_of g u) (daily_goals w)"
    and absent: "getTarget g u (step e w) = None"
    by simp_all
  from Cons.IH [OF absent es] keep show ?case
    by (simp add: run_def)
qed

text \<open>
  A member with a daily goal and no target joins, is sampled and leaves; another member
  has a session open all the while. The goal still reads half an hour.
\<close>

theorem daily_goal_untouched_without_target_witness:
  "getTarget ''g1'' ''u2'' goal_without_target = None \<and>
   filter (goal_of ''g1'' ''u2'')
     (daily_goals
        (run [VoiceStateUpdate helpful_discord 10000
                \<lparr>is_bot = False, vs_guild = ''g1'', vs_user = ''u2'',
                 old_channel = None, new_channel = Some ''vc''\<rparr>,
              PeriodicCheck helpful_discord 20000,
              VoiceStateUpdate helpful_discord 4000000
                \<lparr>is_bot = False, vs_guild = ''g1'', vs_user = ''u2'',
                 old_channel = Some ''vc'', new_channel = None\<rparr>]
           goal_without_target)) =
     [\<lparr>goal_guild_id = ''g1'', goal_user_id = ''u2'', goal_hours = 2,
       achieved_hours = 1 / 2, goal_session_start = None\<rparr>]"
  using daily_goal_untouched_without_target
    [of "''g1''" "''u2''" goal_without_target
        "[VoiceStateUpdate helpful_discord 10000
                \<lparr>is_bot = False, vs_guild = ''g1'', vs_user = ''u2'',
                 old_channel = None, new_channel = Some ''vc''\<rparr>,
              PeriodicCheck helpful_discord 20000,
              VoiceStateUpdate helpful_discord 4000000
                \<lparr>is_bot = False, vs_guild = ''g1'', vs_user = ''u2'',
                 old_channel = Some ''vc'', new_channel = None\<rparr>]"]
  by (simp add: goal_without_target_def getTarget_def target_of_def goal_of_def)

section \<open>The completion check after the target is gone\<close>

lemma periodic_check_effects:
  "effects (periodic_check env now w) =
     effects w @
     concat (map (\<lambda>s. if sampler_clears env now s \<and>
                          fetch_member env (guild_id s) (user_id s) \<noteq> None
                       then [MemberSend (guild_id s) (user_id s)
                               (CongratsTargetHours (of_int (target_seconds s) / 3600))]
                       else []) (getAllActiveSessions w))"
  by (simp add: periodic_check_def sampler_loop_effects)

lemma periodic_check_fresh_effects:
  "fresh_effects w (periodic_check env now w) =
     concat (map (\<lambda>s. if sampler_clears env now s \<and>
                          fetch_member env (guild_id s) (user_id s) \<noteq> None
                       then [MemberSend (guild_id s) (user_id s)
                               (CongratsTargetHours (of_int (target_seconds s) / 3600))]
                       else []) (getAllActiveSessions w))"
  by (simp add: fresh_effects_def periodic_check_effects)

text \<open>
  Claim C7. Once a member's target row is deleted (\<open>clearTarget\<close> leaves none), a
  further voice state update of that member returns the world as it is: no message, no
  write. A further periodic check does not fetch a session of that member, leaves the
  member without a target and with the same daily goal rows, and everything it sends is
  a message to some other member. The model has no failing statement, so "no error"
  is the absence of any other event.
\<close>

theorem completion_check_after_deletion:
  assumes "getTarget g u w = None"
  shows "(vs_guild ev = g \<and> vs_user ev = u \<longrightarrow> voiceStateUpdate env now ev w = w) \<and>
         filter (target_of g u) (getAllActiveSessions w) = [] \<and>
         getTarget g u (periodic_check env now w) = None \<and>
         filter (goal_of g u) (daily_goals (periodic_check env now w)) =
           filter (goal_of g u) (daily_goals w) \<and>
         (\<forall>e \<in> set (fresh_effects w (periodic_check env now w)).
            \<exists>g' u' m. e = MemberSend g' u' m \<and> (g', u') \<noteq> (g, u)) \<and>
         getTarget g u (clearTarget g u w') = None"
proof -
  have handler: "vs_guild ev = g \<and> vs_user ev = u \<longrightarrow> voiceStateUpdate env now ev w = w"
    using assms by (auto simp add: voiceStateUpdate_no_target)
  have fresh: "\<exists>g' u' m. e = MemberSend g' u' m \<and> (g', u') \<noteq> (g, u)"
    if "e \<in> set (fresh_effects w (periodic_check env now w))" for e
  proof -
    from that obtain s where s: "s \<in> set (getAllActiveSessions w)"
      and e: "e = MemberSend (guild_id s) (user_id s)
                    (CongratsTargetHours (of_int (target_seconds s) / 3600))"
      by (auto simp add: periodic_check_fresh_effects split: if_splits)
    from s no_session_without_target [OF assms] have "\<not> target_of g u s"
      by (auto simp add: filter_empty_conv)
    with e show ?thesis by (auto simp add: target_of_def)
  qed
  from handler fresh show ?thesis
    by (simp add: no_session_without_target [OF assms] periodic_check_keeps_absent [OF assms]
          periodic_check_goals_without_target [OF assms] getTarget_clearTarget)
qed

text \<open>
  The member of \<open>studying\<close> leaves after reaching the target: the row is deleted.
  Leaving once more, or a tick, changes nothing and sends nothing.
\<close>

lemma studying_reached:
  "voiceStateUpdate helpful_discord 2500000 leave_vc studying =
     \<lparr>targets = [], todos = [], todos_seq = 0,
      daily_goals = [\<lparr>goal_guild_id = ''g1'', goal_user_id = ''u1'', goal_hours = 2,
                      achieved_hours = 499 / 720, goal_session_start = None\<rparr>],
      effects = [MemberSend ''g1'' ''u1'' CongratsTarget]\<rparr>"
  by (simp add: voiceStateUpdate_def Let_def leave_vc_def studying_def helpful_discord_def
        getTarget_def target_of_def in_channel_def leave_elapsed_def addAccumulated_def
        getDailyGoal_def goal_of_def addAchievedHours_def clearTarget_def emit_def)

theorem completion_check_after_deletion_witness:
  "getTarget ''g1'' ''u1'' (voiceStateUpdate helpful_discord 2500000 leave_vc studying) = None \<and>
   voiceStateUpdate helpful_discord 2600000 leave_vc
       (voiceStateUpdate helpful_discord 2500000 leave_vc studying) =
     voiceStateUpdate helpful_discord 2500000 leave_vc studying \<and>
   getTarget ''g1'' ''u1''
     (periodic_check helpful_discord 2600000
        (voiceStateUpdate helpful_discord 2500000 leave_vc studying)) = None \<and>
   fresh_effects (voiceStateUpdate helpful_discord 2500000 leave_vc studying)
     (periodic_check helpful_discord 2600000
        (voiceStateUpdate helpful_discord 2500000 leave_vc studying)) = []"
proof -
  have gone: "getTarget ''g1'' ''u1''
      (voiceStateUpdate helpful_discord 2500000 leave_vc studying) = None"
    by (simp add: studying_reached getTarget_def)
  have none: "fresh_effects (voiceStateUpdate helpful_discord 2500000 leave_vc studying)
     (periodic_check helpful_discord 2600000
        (voiceStateUpdate helpful_discord 2500000 leave_vc studying)) = []"
    by (simp add: studying_reached periodic_check_fresh_effects getAllActiveSessions_def)
  from completion_check_after_deletion [OF gone, of leave_vc helpful_discord 2600000] gone none
  show ?thesis
    by (simp add: leave_vc_def)
qed

section \<open>The session_start column of the daily goals\<close>

lemma setDailyGoal_fields [simp]:
  "targets (setDailyGoal g u h w) = targets w"
  "todos (setDailyGoal g u h w) = todos w"
  "todos_seq (setDailyGoal g u h w) = todos_seq w"
  "effects (setDailyGoal g u h w) = effects w"
  by (simp_all add: setDailyGoal_def)

lemma setDailyGoal_idle:
  "list_all goal_idle (daily_goals w) \<Longrightarrow> list_all goal_idle (daily_goals (setDailyGoal g u h w))"
  by (auto simp add: setDailyGoal_def list_all_iff goal_idle_def)

lemma run_command_idle:
  "list_all goal_idle (daily_goals w) \<Longrightarrow> list_all goal_idle (daily_goals (run_command g u c w))"
  by (cases c)
     (simp_all add: setDailyGoal_idle setTarget_def addTodo_def completeTodo_def
        deleteTodo_def Let_def)

lemma interactionCreate_idle:
  "list_all goal_idle (daily_goals w) \<Longrightarrow> list_all goal_idle (daily_goals (interactionCreate i w))"
  by (simp add: interactionCreate_def run_command_idle split: option.splits)

lemma addAchievedHours_idle:
  "list_all goal_idle (daily_goals w) \<Longrightarrow>
     list_all goal_idle (daily_goals (addAchievedHours g u h w))"
  by (auto simp add: list_all_iff goal_idle_def)

lemma voiceStateUpdate_idle:
  assumes "list_all goal_idle (daily_goals w)"
  shows "list_all goal_idle (daily_goals (voiceStateUpdate env now ev w))"
  using voiceStateUpdate_daily_goals [of env now ev w] assms addAchievedHours_idle
  by (metis (no_types, lifting))

lemma periodic_check_idle:
  "list_all goal_idle (daily_goals w) \<Longrightarrow>
     list_all goal_idle (daily_goals (periodic_check env now w))"
  by (auto simp add: periodic_check_def sampler_loop_daily_goals list_all_iff goal_idle_def)

lemma daily_reset_daily_goals: "daily_goals (daily_reset env w) = []"
  by (simp add: daily_reset_def Let_def clearDailyGoals_def)

lemma step_idle:
  "list_all goal_idle (daily_goals w) \<Longrightarrow> list_all goal_idle (daily_goals (step e w))"
  by (cases e)
     (simp_all add: voiceStateUpdate_idle periodic_check_idle daily_reset_daily_goals
        interactionCreate_idle)

lemma run_idle:
  "list_all goal_idle (daily_goals w) \<Longrightarrow> list_all goal_idle (daily_goals (run es w))"
  by (induction es arbitrary: w) (simp_all add: run_def step_idle)

lemma find_map_replace_goal:
  "getDailyGoal g u (setDailyGoal g u h w) =
     Some \<lparr>goal_guild_id = g, goal_user_id = u, goal_hours = h, achieved_hours = 0,
           goal_session_start = None\<rparr>"
proof -
  let ?new = "\<lparr>goal_guild_id = g, goal_user_id = u, goal_hours = h, achieved_hours = 0,
           goal_session_start = None\<rparr>"
  have new: "goal_of g u ?new" by (simp add: goal_of_def)
  have same: "d\<lparr>goal_hours := h, achieved_hours := 0, goal_session_start := None\<rparr> = ?new"
    if "goal_of g u d" for d
    using that by (cases d) (simp add: goal_of_def)
  show ?thesis
  proof (cases "list_ex (goal_of g u) (daily_goals w)")
    case True
    from True new show ?thesis
      by (simp add: getDailyGoal_def setDailyGoal_def find_map_replace same)
  next
    case False
    from False new show ?thesis
      by (simp add: getDailyGoal_def setDailyGoal_def find_append_new)
  qed
qed

text \<open>
  Claim C10. The \<open>session_start\<close> field of every daily goal row is absent at all
  times: it is absent in every row after any sequence of entry points (voice state
  updates, periodic checks, daily resets, slash commands) run from a world where it is
  absent in every row, in particular from the empty store; and \<open>setDailyGoal\<close>
  leaves the member's row with \<open>achieved_hours = 0\<close> and no \<open>session_start\<close>.
\<close>

theorem goal_session_start_always_null:
  "(list_all goal_idle (daily_goals w) \<longrightarrow> list_all goal_idle (daily_goals (run es w))) \<and>
   list_all goal_idle (daily_goals (run es empty_store)) \<and>
   getDailyGoal g u (setDailyGoal g u h w) =
     Some \<lparr>goal_guild_id = g, goal_user_id = u, goal_hours = h, achieved_hours = 0,
           goal_session_start = None\<rparr>"
proof -
  have "list_all goal_idle (daily_goals empty_store)"
    by (simp add: empty_store_def)
  then have "list_all goal_idle (daily_goals (run es empty_store))"
    by (rule run_idle)
  then show ?thesis
    by (simp add: run_idle find_map_replace_goal)
qed

text \<open>
  A short day from the empty store: target, goal, join, one tick, leave. The goal row
  holds 70 seconds' worth of hours and no session start.
\<close>

lemma short_day_goals:
  "daily_goals (run short_day empty_store) =
     [\<lparr>goal_guild_id = ''g1'', goal_user_id = ''u1'', goal_hours = 2,
       achieved_hours = 7 / 360, goal_session_start = None\<rparr>]"
  by (simp add: short_day_def run_def empty_store_def slash_def join_vc_def leave_vc_def
        helpful_discord_def interactionCreate_def setTarget_def setDailyGoal_def
        voiceStateUpdate_def Let_def getTarget_def target_of_def in_channel_def
        leave_elapsed_def goal_of_def getDailyGoal_def kick_early_def
        periodic_check_def getAllActiveSessions_def sampler_elapsed_def js_times_values)

theorem goal_session_start_always_null_witness:
  "list_all goal_idle (daily_goals (run short_day empty_store)) \<and>
   map achieved_hours (daily_goals (run short_day empty_store)) = [7 / 360]"
  using goal_session_start_always_null [of empty_store short_day]
  by (simp add: short_day_goals)

section \<open>What a periodic check does to the targets\<close>

lemma periodic_check_targets:
  "targets (periodic_check env now w) =
     filter (\<lambda>r. \<not> list_ex (\<lambda>s. sampler_clears env now s \<and>
                                  target_of (guild_id s) (user_id s) r)
                         (getAllActiveSessions w))
       (targets w)"
  by (simp add: periodic_check_def sampler_loop_targets)

lemma distinct_key_unique:
  assumes "distinct (map (\<lambda>r. (guild_id r, user_id r)) rs)"
    and "r \<in> set rs" and "s \<in> set rs" and "target_of (guild_id s) (user_id s) r"
  shows "s = r"
proof -
  from assms(4) have "(guild_id s, user_id s) = (guild_id r, user_id r)"
    by (simp add: target_of_def)
  with assms(1-3) show ?thesis
    by (meson distinct_map inj_onD)
qed

lemma cleared_by_own_session:
  assumes "target_keys_distinct w" and "r \<in> set (targets w)"
  shows "list_ex (\<lambda>s. sampler_clears env now s \<and> target_of (guild_id s) (user_id s) r)
           (getAllActiveSessions w) \<longleftrightarrow>
         session_start r \<noteq> None \<and> sampler_clears env now r"
proof
  assume "list_ex (\<lambda>s. sampler_clears env now s \<and> target_of (guild_id s) (user_id s) r)
           (getAllActiveSessions w)"
  then obtain s where s: "s \<in> set (targets w)" "session_start s \<noteq> None"
      "sampler_clears env now s" "target_of (guild_id s) (user_id s) r"
    by (auto simp add: list_ex_iff getAllActiveSessions_def)
  with assms have "s = r"
    by (auto simp add: target_keys_distinct_def intro: distinct_key_unique)
  with s show "session_start r \<noteq> None \<and> sampler_clears env now r" by simp
next
  assume "session_start r \<noteq> None \<and> sampler_clears env now r"
  with assms(2) show "list_ex (\<lambda>s. sampler_clears env now s \<and> target_of (guild_id s) (user_id s) r)
           (getAllActiveSessions w)"
    by (auto simp add: list_ex_iff getAllActiveSessions_def target_of_def)
qed

text \<open>
  Claim C6 (amended). A periodic check never modifies the \<open>accumulated_seconds\<close> or
  the \<open>session_start\<close> of a target: the targets after the tick are the targets
  before it, in order and unchanged, less the deleted ones. A row is deleted exactly
  when it has an open session, its projected total
  \<open>accumulated_seconds + elapsed\<close> reaches \<open>target_seconds\<close> and its guild is in
  the client's cache. The congratulation goes out for exactly those rows whose member
  can also be fetched. A row whose projected total reaches the target while its guild is
  not cached is left as it is.
\<close>

theorem periodic_check_frame:
  assumes "target_keys_distinct w"
  shows "targets (periodic_check env now w) =
           filter (\<lambda>r. \<not> (session_start r \<noteq> None \<and>
                           target_seconds r \<le> accumulated_seconds r + sampler_elapsed now r \<and>
                           guild_cached env (guild_id r) \<noteq> None))
             (targets w) \<and>
         fresh_effects w (periodic_check env now w) =
           concat (map (\<lambda>s. if target_seconds s \<le> accumulated_seconds s + sampler_elapsed now s \<and>
                                guild_cached env (guild_id s) \<noteq> None \<and>
                                fetch_member env (guild_id s) (user_id s) \<noteq> None
                             then [MemberSend (guild_id s) (user_id s)
                                     (CongratsTargetHours (of_int (target_seconds s) / 3600))]
                             else [])
                    (getAllActiveSessions w))"
proof -
  have "filter (\<lambda>r. \<not> list_ex (\<lambda>s. sampler_clears env now s \<and>
                                  target_of (guild_id s) (user_id s) r)
                         (getAllActiveSessions w)) (targets w) =
        filter (\<lambda>r. \<not> (session_start r \<noteq> None \<and> sampler_clears env now r)) (targets w)"
    by (rule filter_cong) (simp_all add: cleared_by_own_session [OF assms])
  then show ?thesis
    by (simp add: periodic_check_targets periodic_check_fresh_effects sampler_clears_def
          conj_assoc)
qed

text \<open>
  On \<open>studying\<close>: a tick ten seconds into the session keeps the row and sends
  nothing; a tick after the target is reached deletes the row and congratulates.
\<close>

theorem periodic_check_frame_witness:
  "target_keys_distinct studying \<and>
   targets (periodic_check helpful_discord 15000 studying) = targets studying \<and>
   fresh_effects studying (periodic_check helpful_discord 15000 studying) = [] \<and>
   targets (periodic_check helpful_discord 2500000 studying) = [] \<and>
   fresh_effects studying (periodic_check helpful_discord 2500000 studying) =
     [MemberSend ''g1'' ''u1'' (CongratsTargetHours 1)]"
proof -
  have keys: "target_keys_distinct studying"
    by (simp add: target_keys_distinct_def studying_def)
  from periodic_check_frame [OF keys, of helpful_discord 15000]
    periodic_check_frame [OF keys, of helpful_discord 2500000] keys
  show ?thesis
    by (simp add: studying_def helpful_discord_def sampler_elapsed_def getAllActiveSessions_def)
qed

text \<open>
  Claim C6 as stated fails. The projected total of the one open session is
  \<open>3695 \<ge> 3600\<close>; with the guild out of the cache the tick keeps the row
  (\<^verbatim>\<open>if (!guild) continue;\<close> comes before \<^verbatim>\<open>clearTarget\<close>), and with the
  member not fetchable the row is deleted without any notification.
\<close>

theorem sampler_keeps_reached_target_counterexample:
  "getAllActiveSessions studying =
     [\<lparr>guild_id = ''g1'', user_id = ''u1'', target_seconds = 3600,
       accumulated_seconds = 1200, session_start = Some 5000\<rparr>] \<and>
   1200 + sampler_elapsed 2500000
     \<lparr>guild_id = ''g1'', user_id = ''u1'', target_seconds = 3600,
      accumulated_seconds = 1200, session_start = Some 5000\<rparr> = 3695 \<and>
   targets (periodic_check uncached_discord 2500000 studying) = targets studying \<and>
   effects (periodic_check uncached_discord 2500000 studying) = [] \<and>
   targets (periodic_check memberless_discord 2500000 studying) = [] \<and>
   effects (periodic_check memberless_discord 2500000 studying) = []"
  by (simp add: studying_def uncached_discord_def memberless_discord_def helpful_discord_def
        periodic_check_def getAllActiveSessions_def sampler_elapsed_def Let_def
        getDailyGoal_def goal_of_def target_of_def)

section \<open>The daily reset\<close>

lemma daily_reset_fresh_effects:
  "fresh_effects w (daily_reset env w) =
     concat (map (\<lambda>g. if achieved_hours g < goal_hours g then
                         (case guild_cached env (goal_guild_id g) of
                            None \<Rightarrow> []
                          | Some guild_name \<Rightarrow>
                              (case fetch_member env (goal_guild_id g) (goal_user_id g) of
                                 None \<Rightarrow> []
                               | Some m \<Rightarrow>
                                   [MemberKick (goal_guild_id g) (goal_user_id g)
                                      (GoalMissedReason (achieved_hours g) (goal_hours g)),
                                    MemberSend (goal_guild_id g) (goal_user_id g)
                                      (GoalMissedKicked guild_name (achieved_hours g) (goal_hours g))]))
                       else []) (daily_goals w)) @
     [ConsoleLog DailyResetComplete]"
  by (simp add: fresh_effects_def daily_reset_def Let_def clearDailyGoals_def
        getAllDailyGoals_def reset_loop_effects)

lemma daily_reset_store:
  "daily_goals (daily_reset env w) = [] \<and> todos (daily_reset env w) = [] \<and>
   todos_seq (daily_reset env w) = todos_seq w \<and> targets (daily_reset env w) = targets w"
  by (simp add: daily_reset_def Let_def clearDailyGoals_def reset_loop_store)

text \<open>
  Claim C4 (amended). After the daily reset there is no daily goal row and no to-do
  item left, whatever Discord answered, and the targets are untouched. A kick is
  attempted for a member exactly when a daily goal row of theirs has
  \<open>achieved_hours < goal_hours\<close>, the guild is in the client's cache and the member
  can be fetched; the reason carries the two figures of that row. The same rows, and
  no others, get the direct message. A row with \<open>achieved_hours \<ge> goal_hours\<close>
  triggers neither.
\<close>

theorem daily_reset_enforces_and_clears:
  "daily_goals (daily_reset env w) = [] \<and>
   todos (daily_reset env w) = [] \<and>
   targets (daily_reset env w) = targets w \<and>
   (MemberKick g u reason \<in> set (fresh_effects w (daily_reset env w)) \<longleftrightarrow>
      (\<exists>d \<in> set (daily_goals w).
         goal_of g u d \<and> achieved_hours d < goal_hours d \<and>
         guild_cached env g \<noteq> None \<and> fetch_member env g u \<noteq> None \<and>
         reason = GoalMissedReason (achieved_hours d) (goal_hours d))) \<and>
   (MemberSend g u note \<in> set (fresh_effects w (daily_reset env w)) \<longleftrightarrow>
      (\<exists>d \<in> set (daily_goals w).
         goal_of g u d \<and> achieved_hours d < goal_hours d \<and>
         fetch_member env g u \<noteq> None \<and>
         (\<exists>name. guild_cached env g = Some name \<and>
                 note = GoalMissedKicked name (achieved_hours d) (goal_hours d))))"
proof -
  let ?act = "\<lambda>d. if achieved_hours d < goal_hours d then
                 (case guild_cached env (goal_guild_id d) of
                    None \<Rightarrow> []
                  | Some guild_name \<Rightarrow>
                      (case fetch_member env (goal_guild_id d) (goal_user_id d) of
                         None \<Rightarrow> []
                       | Some m \<Rightarrow>
                           [MemberKick (goal_guild_id d) (goal_user_id d)
                              (GoalMissedReason (achieved_hours d) (goal_hours d)),
                            MemberSend (goal_guild_id d) (goal_user_id d)
                              (GoalMissedKicked guild_name (achieved_hours d) (goal_hours d))]))
               else []"
  have fresh: "set (fresh_effects w (daily_reset env w)) =
      (\<Union>d \<in> set (daily_goals w). set (?act d)) \<union> {ConsoleLog DailyResetComplete}"
    unfolding daily_reset_fresh_effects set_append set_concat set_map image_image
    by (simp only: list.set Un_commute)
  have kick1: "MemberKick g u reason \<in> set (?act d) \<longleftrightarrow>
         goal_of g u d \<and> achieved_hours d < goal_hours d \<and>
         guild_cached env g \<noteq> None \<and> fetch_member env g u \<noteq> None \<and>
         reason = GoalMissedReason (achieved_hours d) (goal_hours d)" for d
    by (cases "achieved_hours d < goal_hours d";
        cases "guild_cached env (goal_guild_id d)";
        cases "fetch_member env (goal_guild_id d) (goal_user_id d)")
       (auto simp add: goal_of_def)
  have send1: "MemberSend g u note \<in> set (?act d) \<longleftrightarrow>
         goal_of g u d \<and> achieved_hours d < goal_hours d \<and>
         fetch_member env g u \<noteq> None \<and>
         (\<exists>name. guild_cached env g = Some name \<and>
                 note = GoalMissedKicked name (achieved_hours d) (goal_hours d))" for d
    by (cases "achieved_hours d < goal_hours d";
        cases "guild_cached env (goal_guild_id d)";
        cases "fetch_member env (goal_guild_id d) (goal_user_id d)")
       (auto simp add: goal_of_def)
  have kick: "MemberKick g u reason \<in> set (fresh_effects w (daily_reset env w)) \<longleftrightarrow>
      (\<exists>d \<in> set (daily_goals w).
         goal_of g u d \<and> achieved_hours d < goal_hours d \<and>
         guild_cached env g \<noteq> None \<and> fetch_member env g u \<noteq> None \<and>
         reason = GoalMissedReason (achieved_hours d) (goal_hours d))"
    unfolding fresh using kick1 by blast
  have send: "MemberSend g u note \<in> set (fresh_effects w (daily_reset env w)) \<longleftrightarrow>
      (\<exists>d \<in> set (daily_goals w).
         goal_of g u d \<and> achieved_hours d < goal_hours d \<and>
         fetch_member env g u \<noteq> None \<and>
         (\<exists>name. guild_cached env g = Some name \<and>
                 note = GoalMissedKicked name (achieved_hours d) (goal_hours d)))"
    unfolding fresh using send1 by blast
  from kick send show ?thesis
    by (simp only: daily_reset_store simp_thms)
qed

text \<open>
  Two goals, 3 of 5 hours and 5 of 5 hours: only the first member is kicked, and both
  rows and both to-do items are gone.
\<close>

lemma two_goals_reset:
  "fresh_effects two_goals (daily_reset helpful_discord two_goals) =
     [MemberKick ''g1'' ''u1'' (GoalMissedReason 3 5),
      MemberSend ''g1'' ''u1'' (GoalMissedKicked ''Study Hall'' 3 5),
      ConsoleLog DailyResetComplete]"
  by (simp add: daily_reset_fresh_effects two_goals_def helpful_discord_def)

theorem daily_reset_enforces_and_clears_witness:
  "daily_goals (daily_reset helpful_discord two_goals) = [] \<and>
   todos (daily_reset helpful_discord two_goals) = [] \<and>
   MemberKick ''g1'' ''u1'' (GoalMissedReason 3 5)
     \<in> set (fresh_effects two_goals (daily_reset helpful_discord two_goals)) \<and>
   MemberKick ''g1'' ''u2'' (GoalMissedReason 5 5)
     \<notin> set (fresh_effects two_goals (daily_reset helpful_discord two_goals))"
  using daily_reset_enforces_and_clears
      [of helpful_discord two_goals "''g1''" "''u1''" "GoalMissedReason 3 5"]
    daily_reset_enforces_and_clears
      [of helpful_discord two_goals "''g1''" "''u2''" "GoalMissedReason 5 5"]
  by (simp add: two_goals_def helpful_discord_def goal_of_def)

text \<open>
  Claim C4 as stated fails. The first row of \<open>two_goals\<close> is short of its goal, yet
  with the guild out of the cache (\<^verbatim>\<open>if (!guild) continue;\<close>), or with the member
  not fetchable (\<^verbatim>\<open>if (member)\<close>), the reset attempts no removal and sends no
  notification: all it emits is the console line.
\<close>

theorem daily_reset_skips_unresolved_counterexample:
  "map (\<lambda>d. achieved_hours d < goal_hours d) (daily_goals two_goals) = [True, False] \<and>
   fresh_effects two_goals (daily_reset uncached_discord two_goals) =
     [ConsoleLog DailyResetComplete] \<and>
   fresh_effects two_goals (daily_reset memberless_discord two_goals) =
     [ConsoleLog DailyResetComplete]"
  by (simp add: daily_reset_fresh_effects two_goals_def uncached_discord_def
        memberless_discord_def helpful_discord_def)

section \<open>Leaving the voice channel early\<close>

lemma getTarget_after_accounting:
  "getTarget g u w = Some row \<Longrightarrow>
     getTarget g u (addAccumulated g u e w) =
       Some (row\<lparr>accumulated_seconds := accumulated_seconds row + e, session_start := None\<rparr>)"
proof -
  assume row: "getTarget g u w = Some row"
  then have "target_of g u row"
    by (auto simp add: getTarget_def dest: find_Some_iff [THEN iffD1])
  with row show ?thesis
    by (simp add: getTarget_addAccumulated)
qed

lemma voiceStateUpdate_leave:
  assumes "\<not> is_bot ev" and "in_channel (old_channel ev)" and "\<not> in_channel (new_channel ev)"
    and "vs_guild ev = g" and "vs_user ev = u"
    and "getTarget g u w = Some row"
  shows "voiceStateUpdate env now ev w =
    (let elapsed = leave_elapsed now row;
         updated = row\<lparr>accumulated_seconds := accumulated_seconds row + elapsed,
                        session_start := None\<rparr>;
         w3 = addAchievedHours g u (of_int elapsed / 3600) (addAccumulated g u elapsed w)
     in if accumulated_seconds updated \<ge> target_seconds updated then
          clearTarget g u
            (case fetch_member env g u of
               None \<Rightarrow> w3
             | Some m \<Rightarrow> emit (MemberSend g u CongratsTarget) w3)
        else kick_early env g u updated w3)"
  using assms
  by (simp add: voiceStateUpdate_def Let_def if_goal_then_add getTarget_after_accounting)

lemma fresh_effects_append:
  "effects w' = effects w @ new \<Longrightarrow> fresh_effects w w' = new"
  by (simp add: fresh_effects_def)

lemma kick_early_outcome:
  "kick_early env g u updated w =
     (case fetch_member env g u of
        None \<Rightarrow> w
      | Some m \<Rightarrow>
          if \<not> bot_can_kick env g then
            (case announce_channel env g of
               None \<Rightarrow> w
             | Some c \<Rightarrow> w\<lparr>effects := effects w @ [ChannelSend g c (NoKickPermission u)]\<rparr>)
          else if highest_role_position m \<ge> bot_role_position env g then
            w\<lparr>effects := effects w @ [MemberSend g u HierarchyBlocked]\<rparr>
          else if kick_succeeds env g u then
            w\<lparr>targets := filter (\<lambda>r. \<not> target_of g u r) (targets w),
              effects := effects w @
                [MemberKick g u (LeftEarlyReason (of_int (accumulated_seconds updated) / 3600)
                                   (of_int (target_seconds updated) / 3600)),
                 MemberSend g u (KickedEarly (of_int (accumulated_seconds updated) / 3600)
                                   (of_int (target_seconds updated) / 3600))]\<rparr>
          else
            w\<lparr>effects := effects w @
                [MemberKick g u (LeftEarlyReason (of_int (accumulated_seconds updated) / 3600)
                                   (of_int (target_seconds updated) / 3600)),
                 ConsoleError FailedToKick]\<rparr>)"
  by (simp add: kick_early_def Let_def emit_def clearTarget_def split: option.splits)

text \<open>
  Claim C3 (amended). A member who is not a bot leaves the voice channel, has a target,
  and the target re-read after the accounting is not reached. Write \<open>kept\<close> for the
  targets table as the accounting left it, \<open>a\<close> and \<open>t\<close> for the accumulated and the
  target seconds of the re-read row divided by 3600. Then a kick is attempted if and
  only if the member can be fetched, the bot has the kick permission and the member's
  highest role is strictly below the bot's. If the kick resolves, its reason cites
  \<open>a\<close> and \<open>t\<close>, the member is sent a message citing the same \<open>a\<close> and \<open>t\<close>, and the
  target is deleted. If the kick rejects, the failure is logged and the table stays
  \<open>kept\<close>. If the permission is missing, the notice goes to the announcement channel
  when the guild has one and nothing is sent when it has none; the table stays
  \<open>kept\<close>. If the hierarchy blocks the kick, the member is told so and the table
  stays \<open>kept\<close>. If the member cannot be fetched, nothing is sent and the table stays
  \<open>kept\<close>.
\<close>

theorem early_leave_enforcement:
  assumes "\<not> is_bot ev" and "in_channel (old_channel ev)" and "\<not> in_channel (new_channel ev)"
    and "vs_guild ev = g" and "vs_user ev = u"
    and "getTarget g u w = Some row"
    and "accumulated_seconds row + leave_elapsed now row < target_seconds row"
    and "w' = voiceStateUpdate env now ev w"
    and "kept = targets (addAccumulated g u (leave_elapsed now row) w)"
    and "a = of_int (accumulated_seconds row + leave_elapsed now row) / 3600"
    and "t = of_int (target_seconds row) / 3600"
  shows "((\<exists>reason. MemberKick g u reason \<in> set (fresh_effects w w')) \<longleftrightarrow>
            (\<exists>m. fetch_member env g u = Some m \<and> bot_can_kick env g \<and>
                 highest_role_position m < bot_role_position env g)) \<and>
         (\<forall>m. fetch_member env g u = Some m \<and> bot_can_kick env g \<and>
              highest_role_position m < bot_role_position env g \<and> kick_succeeds env g u \<longrightarrow>
              fresh_effects w w' =
                [MemberKick g u (LeftEarlyReason a t), MemberSend g u (KickedEarly a t)] \<and>
              targets w' = filter (\<lambda>r. \<not> target_of g u r) kept \<and>
              getTarget g u w' = None) \<and>
         (\<forall>m. fetch_member env g u = Some m \<and> bot_can_kick env g \<and>
              highest_role_position m < bot_role_position env g \<and> \<not> kick_succeeds env g u \<longrightarrow>
              fresh_effects w w' =
                [MemberKick g u (LeftEarlyReason a t), ConsoleError FailedToKick] \<and>
              targets w' = kept) \<and>
         (\<forall>m. fetch_member env g u = Some m \<and> \<not> bot_can_kick env g \<longrightarrow>
              fresh_effects w w' =
                (case announce_channel env g of
                   None \<Rightarrow> []
                 | Some c \<Rightarrow> [ChannelSend g c (NoKickPermission u)]) \<and>
              targets w' = kept) \<and>
         (\<forall>m. fetch_member env g u = Some m \<and> bot_can_kick env g \<and>
              bot_role_position env g \<le> highest_role_position m \<longrightarrow>
              fresh_effects w w' = [MemberSend g u HierarchyBlocked] \<and>
              targets w' = kept) \<and>
         (fetch_member env g u = None \<longrightarrow> fresh_effects w w' = [] \<and> targets w' = kept)"
proof -
  let ?e = "leave_elapsed now row"
  let ?upd = "row\<lparr>accumulated_seconds := accumulated_seconds row + ?e, session_start := None\<rparr>"
  let ?w3 = "addAchievedHours g u (of_int ?e / 3600) (addAccumulated g u ?e w)"
  from assms(1-7) have w': "w' = kick_early env g u ?upd ?w3"
    unfolding assms(8) by (simp add: voiceStateUpdate_leave Let_def)
  note kept = assms(9)
  have old: "effects ?w3 = effects w"
    by simp
  note a = assms(10) and t = assms(11)
  show ?thesis
  proof (cases "fetch_member env g u")
    case None
    then show ?thesis
      by (simp add: w' kick_early_outcome fresh_effects_def old kept)
  next
    case (Some m)
    consider (noperm) "\<not> bot_can_kick env g"
      | (hier) "bot_can_kick env g" "bot_role_position env g \<le> highest_role_position m"
      | (kicked) "bot_can_kick env g" "highest_role_position m < bot_role_position env g"
          "kick_succeeds env g u"
      | (failed) "bot_can_kick env g" "highest_role_position m < bot_role_position env g"
          "\<not> kick_succeeds env g u"
      by linarith
    then show ?thesis
    proof cases
      case noperm
      with Some show ?thesis
        by (cases "announce_channel env g")
           (simp_all add: w' kick_early_outcome fresh_effects_def old kept)
    next
      case hier
      with Some show ?thesis
        by (simp add: w' kick_early_outcome fresh_effects_def old kept)
    next
      case kicked
      with Some show ?thesis
        by (simp add: w' kick_early_outcome fresh_effects_def old kept a t getTarget_def
              find_filter_self)
    next
      case failed
      with Some show ?thesis
        by (simp add: w' kick_early_outcome fresh_effects_def old kept a t)
    qed
  qed
qed

text \<open>
  The member of \<open>studying\<close> leaves with 1800 of 3600 seconds: kicked with the
  fraction 1/2 of 1 hour, told the same, and the target is gone.
\<close>

theorem early_leave_enforcement_witness:
  "fresh_effects studying (voiceStateUpdate helpful_discord 605000 leave_vc studying) =
     [MemberKick ''g1'' ''u1'' (LeftEarlyReason (1 / 2) 1),
      MemberSend ''g1'' ''u1'' (KickedEarly (1 / 2) 1)] \<and>
   getTarget ''g1'' ''u1'' (voiceStateUpdate helpful_discord 605000 leave_vc studying) = None"
proof -
  let ?row = "\<lparr>guild_id = ''g1'', user_id = ''u1'', target_seconds = 3600,
                accumulated_seconds = 1200, session_start = Some 5000\<rparr>"
  have row: "getTarget ''g1'' ''u1'' studying = Some ?row"
    by (simp add: studying_def getTarget_def target_of_def)
  have early: "accumulated_seconds ?row + leave_elapsed 605000 ?row < target_seconds ?row"
    by (simp add: leave_elapsed_def)
  have a: "(1 / 2 :: rat) = of_int (accumulated_seconds ?row + leave_elapsed 605000 ?row) / 3600"
    by (simp add: leave_elapsed_def)
  have t: "(1 :: rat) = of_int (target_seconds ?row) / 3600"
    by simp
  have ev: "\<not> is_bot leave_vc" "in_channel (old_channel leave_vc)"
    "\<not> in_channel (new_channel leave_vc)" "vs_guild leave_vc = ''g1''"
    "vs_user leave_vc = ''u1''"
    by (simp_all add: leave_vc_def in_channel_def)
  from early_leave_enforcement [OF ev row early refl refl a t, of helpful_discord]
  show ?thesis
    by (simp add: helpful_discord_def)
qed

text \<open>
  Claim C3 as stated fails. Without the kick permission and without an announcement
  channel no notice is posted (\<^verbatim>\<open>if (announceChannel)\<close>); when the member cannot
  be fetched nothing happens although the bot has the permission
  (\<^verbatim>\<open>if (!member) return;\<close>); and when \<^verbatim>\<open>member.kick\<close> rejects, the member
  stays, the target stays and no message reaches the member, although permission and
  hierarchy allow the kick.
\<close>

theorem early_leave_without_notice_counterexample:
  "bot_can_kick powerless_discord ''g1'' = False \<and>
   fresh_effects studying (voiceStateUpdate powerless_discord 605000 leave_vc studying) = [] \<and>
   bot_can_kick memberless_discord ''g1'' = True \<and>
   fresh_effects studying (voiceStateUpdate memberless_discord 605000 leave_vc studying) = [] \<and>
   fresh_effects studying (voiceStateUpdate rejecting_discord 605000 leave_vc studying) =
     [MemberKick ''g1'' ''u1'' (LeftEarlyReason (1 / 2) 1), ConsoleError FailedToKick] \<and>
   targets (voiceStateUpdate rejecting_discord 605000 leave_vc studying) =
     [\<lparr>guild_id = ''g1'', user_id = ''u1'', target_seconds = 3600,
       accumulated_seconds = 1800, session_start = None\<rparr>]"
  by (simp add: voiceStateUpdate_def Let_def leave_vc_def studying_def helpful_discord_def
        powerless_discord_def memberless_discord_def rejecting_discord_def
        getTarget_def target_of_def in_channel_def leave_elapsed_def
        getDailyGoal_def goal_of_def kick_early_def fresh_effects_def)

section \<open>The elapsed time that is applied\<close>

lemma find_distinct_filter:
  assumes "distinct (map key xs)" and "find (\<lambda>x. key x = k) xs = Some r"
  shows "filter (\<lambda>x. key x = k) xs = [r]"
  using assms
proof (induction xs)
  case Nil
  then show ?case by simp
next
  case (Cons x xs)
  show ?case
  proof (cases "key x = k")
    case True
    from Cons.prems(1) have "key x \<notin> key ` set xs" by simp
    with True have "\<forall>y \<in> set xs. key y \<noteq> k" by blast
    moreover from Cons.prems(2) True have "r = x" by simp
    ultimately show ?thesis using True by (simp add: filter_empty_conv)
  next
    case False
    with Cons show ?thesis by simp
  qed
qed

lemma target_of_key: "target_of g u = (\<lambda>r. (guild_id r, user_id r) = (g, u))"
  by (auto simp add: target_of_def fun_eq_iff)

lemma only_target_row:
  "target_keys_distinct w \<Longrightarrow> getTarget g u w = Some row \<Longrightarrow>
     filter (target_of g u) (targets w) = [row]"
  unfolding target_keys_distinct_def getTarget_def target_of_key
  by (rule find_distinct_filter)

lemma filter_goal_map_add:
  "filter (goal_of g u) (map (\<lambda>d. d\<lparr>achieved_hours := achieved_hours d + f d\<rparr>) ds) =
     map (\<lambda>d. d\<lparr>achieved_hours := achieved_hours d + f d\<rparr>) (filter (goal_of g u) ds)"
  by (induction ds) (simp_all add: goal_of_def)

lemma periodic_check_goals_of:
  "filter (goal_of g u) (daily_goals (periodic_check env now w)) =
     map (\<lambda>d. d\<lparr>achieved_hours := achieved_hours d +
                  (\<Sum>s\<leftarrow>filter (target_of g u) (getAllActiveSessions w).
                      of_int (sampler_elapsed now s) / 3600)\<rparr>)
       (filter (goal_of g u) (daily_goals w))"
  unfolding periodic_check_def sampler_loop_daily_goals filter_goal_map_add
  by (rule map_cong) (simp_all add: goal_of_def)

lemma periodic_check_goals_one_session:
  assumes "filter (target_of g u) (targets w) = [row]" and "session_start row = Some ts"
  shows "filter (goal_of g u) (daily_goals (periodic_check env now w)) =
     map (\<lambda>d. d\<lparr>achieved_hours := achieved_hours d + of_int ((now - ts) div 1000) / 3600\<rparr>)
       (filter (goal_of g u) (daily_goals w))"
proof -
  have "filter (target_of g u) (getAllActiveSessions w) =
      filter (\<lambda>r. session_start r \<noteq> None) (filter (target_of g u) (targets w))"
    by (simp add: getAllActiveSessions_def conj_commute)
  with assms have "filter (target_of g u) (getAllActiveSessions w) = [row]"
    by simp
  with assms(2) show ?thesis
    by (simp add: periodic_check_goals_of sampler_elapsed_def)
qed

lemma filter_goal_addAchievedHours:
  "filter (goal_of g u) (daily_goals (addAchievedHours g u h w)) =
     map (\<lambda>d. d\<lparr>achieved_hours := achieved_hours d + h\<rparr>) (filter (goal_of g u) (daily_goals w))"
proof -
  have "filter (goal_of g u)
          (map (\<lambda>d. if goal_of g u d then d\<lparr>achieved_hours := achieved_hours d + h\<rparr> else d) ds)
        = map (\<lambda>d. d\<lparr>achieved_hours := achieved_hours d + h\<rparr>) (filter (goal_of g u) ds)" for ds
    by (induction ds) (simp_all add: goal_of_def)
  then show ?thesis by simp
qed

lemma voiceStateUpdate_leave_daily_goals:
  assumes "\<not> is_bot ev" and "in_channel (old_channel ev)" and "\<not> in_channel (new_channel ev)"
    and "vs_guild ev = g" and "vs_user ev = u"
    and "getTarget g u w = Some row"
  shows "daily_goals (voiceStateUpdate env now ev w) =
     daily_goals (addAchievedHours g u (of_int (leave_elapsed now row) / 3600) w)"
  by (simp add: voiceStateUpdate_leave [OF assms] Let_def split: option.splits)

lemma voiceStateUpdate_leave_target:
  assumes "\<not> is_bot ev" and "in_channel (old_channel ev)" and "\<not> in_channel (new_channel ev)"
    and "vs_guild ev = g" and "vs_user ev = u"
    and "getTarget g u w = Some row"
  shows "getTarget g u (voiceStateUpdate env now ev w) = None \<or>
         getTarget g u (voiceStateUpdate env now ev w) =
           Some (row\<lparr>accumulated_seconds := accumulated_seconds row + leave_elapsed now row,
                      session_start := None\<rparr>)"
proof -
  let ?e = "leave_elapsed now row"
  let ?upd = "row\<lparr>accumulated_seconds := accumulated_seconds row + ?e, session_start := None\<rparr>"
  let ?w3 = "addAchievedHours g u (of_int ?e / 3600) (addAccumulated g u ?e w)"
  have w3: "getTarget g u ?w3 = Some ?upd"
    by (simp add: getTarget_after_accounting [OF assms(6)])
  show ?thesis
  proof (cases "target_seconds ?upd \<le> accumulated_seconds ?upd")
    case True
    then show ?thesis
      by (simp add: voiceStateUpdate_leave [OF assms] Let_def getTarget_clearTarget)
  next
    case False
    from getTarget_kick_early [of g u env g u ?upd ?w3] w3
    have "getTarget g u (kick_early env g u ?upd ?w3) = None \<or>
          getTarget g u (kick_early env g u ?upd ?w3) = Some ?upd"
      by auto
    with False show ?thesis
      by (simp add: voiceStateUpdate_leave [OF assms] Let_def)
  qed
qed

text \<open>
  Claim C1 (amended). For a member whose target row has an open session started at
  \<open>ts\<close>, the elapsed time that the periodic check adds to the member's daily goal
  (as hours) is \<open>floor ((now - ts) / 1000)\<close>, and so is the elapsed time that a leave
  adds to the daily goal and to \<open>accumulated_seconds\<close> (for \<open>ts \<noteq> 0\<close>; the
  handler reads a \<open>session_start\<close> of 0 as absent). The value is not clamped: it
  equals the clamped value of the specification exactly when \<open>ts \<le> now\<close>, and it is
  negative whenever \<open>now < ts\<close>.
\<close>

theorem elapsed_is_unclamped_floor:
  assumes "getTarget g u w = Some row" and "session_start row = Some ts"
  shows "(target_keys_distinct w \<longrightarrow>
            filter (goal_of g u) (daily_goals (periodic_check env now w)) =
              map (\<lambda>d. d\<lparr>achieved_hours :=
                            achieved_hours d + of_int ((now - ts) div 1000) / 3600\<rparr>)
                (filter (goal_of g u) (daily_goals w))) \<and>
         (\<not> is_bot ev \<and> in_channel (old_channel ev) \<and> \<not> in_channel (new_channel ev) \<and>
          vs_guild ev = g \<and> vs_user ev = u \<and> ts \<noteq> 0 \<longrightarrow>
            filter (goal_of g u) (daily_goals (voiceStateUpdate env now ev w)) =
              map (\<lambda>d. d\<lparr>achieved_hours :=
                            achieved_hours d + of_int ((now - ts) div 1000) / 3600\<rparr>)
                (filter (goal_of g u) (daily_goals w)) \<and>
            (getTarget g u (voiceStateUpdate env now ev w) = None \<or>
             getTarget g u (voiceStateUpdate env now ev w) =
               Some (row\<lparr>accumulated_seconds :=
                            accumulated_seconds row + (now - ts) div 1000,
                          session_start := None\<rparr>))) \<and>
         (((now - ts) div 1000 = clamped_elapsed now ts) = (ts \<le> now)) \<and>
         (now < ts \<longrightarrow> (now - ts) div 1000 < 0)"
proof -
  have sampler: "filter (goal_of g u) (daily_goals (periodic_check env now w)) =
              map (\<lambda>d. d\<lparr>achieved_hours :=
                            achieved_hours d + of_int ((now - ts) div 1000) / 3600\<rparr>)
                (filter (goal_of g u) (daily_goals w))"
    if "target_keys_distinct w"
    using periodic_check_goals_one_session [OF only_target_row [OF that assms(1)] assms(2)] .
  have handler: "filter (goal_of g u) (daily_goals (voiceStateUpdate env now ev w)) =
              map (\<lambda>d. d\<lparr>achieved_hours :=
                            achieved_hours d + of_int ((now - ts) div 1000) / 3600\<rparr>)
                (filter (goal_of g u) (daily_goals w)) \<and>
            (getTarget g u (voiceStateUpdate env now ev w) = None \<or>
             getTarget g u (voiceStateUpdate env now ev w) =
               Some (row\<lparr>accumulated_seconds :=
                            accumulated_seconds row + (now - ts) div 1000,
                          session_start := None\<rparr>))"
    if ev: "\<not> is_bot ev" "in_channel (old_channel ev)" "\<not> in_channel (new_channel ev)"
          "vs_guild ev = g" "vs_user ev = u" and ts: "ts \<noteq> 0"
  proof -
    from assms(2) ts have e: "leave_elapsed now row = (now - ts) div 1000"
      by (simp add: leave_elapsed_def)
    from voiceStateUpdate_leave_daily_goals [OF ev assms(1), of env now]
      voiceStateUpdate_leave_target [OF ev assms(1), of env now]
    show ?thesis
      by (simp only: e filter_goal_addAchievedHours)
  qed
  have sign: "((now - ts) div 1000 = clamped_elapsed now ts) = (ts \<le> now)"
    "now < ts \<longrightarrow> (now - ts) div 1000 < 0"
    by (auto simp add: clamped_elapsed_def max_def)
  from sampler handler sign show ?thesis
    by simp
qed

text \<open>
  On \<open>studying\<close>, sixty seconds into the session: a tick and a leave each add 60
  seconds, a sixtieth of an hour, to the daily goal.
\<close>

theorem elapsed_is_unclamped_floor_witness:
  "filter (goal_of ''g1'' ''u1'') (daily_goals (periodic_check helpful_discord 65000 studying)) =
     [\<lparr>goal_guild_id = ''g1'', goal_user_id = ''u1'', goal_hours = 2,
       achieved_hours = 1 / 60, goal_session_start = None\<rparr>] \<and>
   filter (goal_of ''g1'' ''u1'')
     (daily_goals (voiceStateUpdate helpful_discord 65000 leave_vc studying)) =
     [\<lparr>goal_guild_id = ''g1'', goal_user_id = ''u1'', goal_hours = 2,
       achieved_hours = 1 / 60, goal_session_start = None\<rparr>] \<and>
   (65000 - 5000) div 1000 = clamped_elapsed 65000 5000"
proof -
  let ?row = "\<lparr>guild_id = ''g1'', user_id = ''u1'', target_seconds = 3600,
                accumulated_seconds = 1200, session_start = Some 5000\<rparr>"
  have row: "getTarget ''g1'' ''u1'' studying = Some ?row"
    by (simp add: studying_def getTarget_def target_of_def)
  have ts: "session_start ?row = Some 5000"
    by simp
  have keys: "target_keys_distinct studying"
    by (simp add: target_keys_distinct_def studying_def)
  from elapsed_is_unclamped_floor [OF row ts, of helpful_discord 65000 leave_vc] keys
  show ?thesis
    by (simp add: leave_vc_def in_channel_def studying_def goal_of_def)
qed

text \<open>
  Claim C1 as stated fails. With \<open>now = 0\<close> before the session start 5000 both the
  periodic check and the leave compute \<open>- 5\<close> where the clamped value is 0, and
  apply it: the daily goal drops to \<open>- 1 / 720\<close> hours and the accumulated seconds
  drop from 1200 to 1195.
\<close>

theorem negative_elapsed_counterexample:
  "sampler_elapsed 0 \<lparr>guild_id = ''g1'', user_id = ''u1'', target_seconds = 3600,
                      accumulated_seconds = 1200, session_start = Some 5000\<rparr> = - 5 \<and>
   leave_elapsed 0 \<lparr>guild_id = ''g1'', user_id = ''u1'', target_seconds = 3600,
                    accumulated_seconds = 1200, session_start = Some 5000\<rparr> = - 5 \<and>
   clamped_elapsed 0 5000 = 0 \<and>
   map achieved_hours (daily_goals (periodic_check memberless_discord 0 studying)) =
     [- (1 / 720)] \<and>
   map achieved_hours (daily_goals (voiceStateUpdate memberless_discord 0 leave_vc studying)) =
     [- (1 / 720)] \<and>
   map accumulated_seconds (targets (voiceStateUpdate memberless_discord 0 leave_vc studying)) =
     [1195]"
  by (simp add: voiceStateUpdate_def Let_def leave_vc_def studying_def helpful_discord_def
        memberless_discord_def getTarget_def target_of_def in_channel_def leave_elapsed_def
        getDailyGoal_def goal_of_def kick_early_def periodic_check_def
        getAllActiveSessions_def sampler_elapsed_def clamped_elapsed_def)

section \<open>How a target row can change\<close>

lemma find_SomeD: "find P xs = Some r \<Longrightarrow> P r \<and> r \<in> set xs"
  by (induction xs) (auto split: if_splits)

lemma find_filter_key_invariant:
  assumes "\<And>x y. P x \<Longrightarrow> P y \<Longrightarrow> Q x = Q y"
    and "find P (filter Q xs) = Some r"
  shows "find P xs = Some r"
  using assms(2)
proof (induction xs)
  case Nil
  then show ?case by simp
next
  case (Cons x xs)
  show ?case
  proof (cases "P x")
    case True
    show ?thesis
    proof (cases "Q x")
      case q: True
      with True Cons.prems show ?thesis by simp
    next
      case q: False
      from find_SomeD [OF Cons.prems] q have "P r" and "Q r"
        by simp_all
      with assms(1) [OF True, of r] q show ?thesis by blast
    qed
  next
    case False
    with Cons show ?thesis by (cases "Q x") simp_all
  qed
qed

lemma periodic_check_getTarget:
  assumes "getTarget g u (periodic_check env now w) = Some r'"
  shows "getTarget g u w = Some r'"
proof -
  let ?Q = "\<lambda>r. \<not> list_ex (\<lambda>s. sampler_clears env now s \<and>
                                  target_of (guild_id s) (user_id s) r)
                         (getAllActiveSessions w)"
  have "?Q x = ?Q y" if "target_of g u x" "target_of g u y" for x y
    using that by (simp add: target_of_def)
  moreover from assms have "find (target_of g u) (filter ?Q (targets w)) = Some r'"
    by (simp add: getTarget_def periodic_check_targets)
  ultimately have "find (target_of g u) (targets w) = Some r'"
    by (rule find_filter_key_invariant [of "target_of g u" ?Q])
  then show ?thesis
    by (simp add: getTarget_def)
qed

lemma leave_elapsed_nonneg:
  "(\<And>ts. session_start row = Some ts \<Longrightarrow> ts \<le> now) \<Longrightarrow> 0 \<le> leave_elapsed now row"
  by (cases "session_start row") (simp_all add: leave_elapsed_def pos_imp_zdiv_nonneg_iff)

lemma voiceStateUpdate_other:
  assumes "is_bot ev \<or> \<not> (in_channel (old_channel ev) \<longleftrightarrow> \<not> in_channel (new_channel ev))"
  shows "voiceStateUpdate env now ev w = w"
  using assms
  by (auto simp add: voiceStateUpdate_def Let_def split: option.splits)

lemma voiceStateUpdate_join:
  assumes "\<not> is_bot ev" and "\<not> in_channel (old_channel ev)" and "in_channel (new_channel ev)"
    and "getTarget (vs_guild ev) (vs_user ev) w = Some row"
  shows "voiceStateUpdate env now ev w = setSessionStart (vs_guild ev) (vs_user ev) now w"
  using assms
  by (simp add: voiceStateUpdate_def Let_def)

lemma getTarget_SomeD: "getTarget g u w = Some r \<Longrightarrow> target_of g u r"
  by (simp add: getTarget_def find_SomeD)

lemma voiceStateUpdate_getTarget:
  assumes after: "getTarget g u (voiceStateUpdate env now ev w) = Some r'"
  shows "\<exists>r. getTarget g u w = Some r \<and>
           (r' = r \<or> r' = r\<lparr>session_start := Some now\<rparr> \<or>
            (in_channel (old_channel ev) \<and> \<not> in_channel (new_channel ev) \<and>
             getTarget (vs_guild ev) (vs_user ev) w = Some r \<and>
             r' = r\<lparr>accumulated_seconds := accumulated_seconds r + leave_elapsed now r,
                    session_start := None\<rparr>))"
proof -
  let ?g = "vs_guild ev" and ?u = "vs_user ev"
  consider (other) "is_bot ev \<or> \<not> (in_channel (old_channel ev) \<longleftrightarrow> \<not> in_channel (new_channel ev))"
    | (none) "getTarget ?g ?u w = None"
    | (join) row where "\<not> is_bot ev" "\<not> in_channel (old_channel ev)"
        "in_channel (new_channel ev)" "getTarget ?g ?u w = Some row"
    | (leave) row where "\<not> is_bot ev" "in_channel (old_channel ev)"
        "\<not> in_channel (new_channel ev)" "getTarget ?g ?u w = Some row"
    by (cases "getTarget ?g ?u w") auto
  then show ?thesis
  proof cases
    case other
    with after show ?thesis by (simp add: voiceStateUpdate_other)
  next
    case none
    with after show ?thesis by (simp add: voiceStateUpdate_no_target)
  next
    case join
    from after obtain r where r: "getTarget g u w = Some r"
      and r': "r' = (if target_of ?g ?u r then r\<lparr>session_start := Some now\<rparr> else r)"
      unfolding voiceStateUpdate_join [OF join] getTarget_setSessionStart by auto
    then show ?thesis by auto
  next
    case leave
    let ?e = "leave_elapsed now row"
    let ?upd = "row\<lparr>accumulated_seconds := accumulated_seconds row + ?e, session_start := None\<rparr>"
    let ?w3 = "addAchievedHours ?g ?u (of_int ?e / 3600) (addAccumulated ?g ?u ?e w)"
    have "getTarget g u ?w3 = Some r'"
    proof (cases "target_seconds ?upd \<le> accumulated_seconds ?upd")
      case True
      with after show ?thesis
        unfolding voiceStateUpdate_leave [OF leave(1-3) refl refl leave(4)]
        by (simp add: Let_def getTarget_clearTarget split: if_splits option.splits)
    next
      case False
      with after getTarget_kick_early [of g u env ?g ?u ?upd ?w3] show ?thesis
        unfolding voiceStateUpdate_leave [OF leave(1-3) refl refl leave(4)]
        by (auto simp add: Let_def)
    qed
    then obtain r where r: "getTarget g u w = Some r"
      and r': "r' = (if target_of ?g ?u r
                     then r\<lparr>accumulated_seconds := accumulated_seconds r + ?e,
                            session_start := None\<rparr>
                     else r)"
      by (auto simp add: getTarget_addAccumulated)
    show ?thesis
    proof (cases "target_of ?g ?u r")
      case True
      from getTarget_SomeD [OF r] True have "g = ?g" and "u = ?u"
        by (simp_all add: target_of_def)
      with r leave(4) have "row = r" by simp
      with r r' True leave show ?thesis by simp
    next
      case False
      with r r' show ?thesis by simp
    qed
  qed
qed

lemma getTarget_todo_goal [simp]:
  "getTarget g u (addTodo g' u' txt w) = getTarget g u w"
  "getTarget g u (completeTodo g' u' n w) = getTarget g u w"
  "getTarget g u (deleteTodo g' u' n w) = getTarget g u w"
  "getTarget g u (setDailyGoal g' u' h w) = getTarget g u w"
  by (simp_all add: getTarget_def addTodo_def completeTodo_def deleteTodo_def setDailyGoal_def)

lemma run_command_getTarget:
  assumes "\<forall>m. c \<noteq> SetTargetCmd m" and "getTarget g u (run_command g' u' c w) = Some r'"
  shows "getTarget g u w = Some r'"
  using assms
  by (cases c) (simp_all add: getTarget_clearTarget Let_def split: if_splits)

lemma interactionCreate_getTarget:
  assumes "\<not> replaces_target (InteractionCreate i)"
    and "getTarget g u (interactionCreate i w) = Some r'"
  shows "getTarget g u w = Some r'"
proof -
  from assms(1) have "\<forall>m. cmd i \<noteq> SetTargetCmd m"
    by (auto split: command.splits)
  with assms(2) show ?thesis
    by (auto simp add: interactionCreate_def split: if_splits option.splits
          dest: run_command_getTarget)
qed

text \<open>
  Claim C5 (amended). Take any entry point other than a /settarget command (a voice
  state update, a periodic check, the daily reset, any other command). Every target
  that can be read afterwards could be read before, and it is either unchanged, or only
  its \<open>session_start\<close> was set, or the elapsed time of the leave was folded into
  \<open>accumulated_seconds\<close> with \<open>session_start\<close> cleared in the same update; this
  holds whatever the clock reads. Its \<open>accumulated_seconds\<close> has not decreased,
  provided that at a leave \<open>Date.now()\<close> is not earlier than the \<open>session_start\<close>
  stored for the member.
\<close>

theorem accumulated_seconds_monotone:
  assumes "\<not> replaces_target e" and "getTarget g u (step e w) = Some r'"
  shows "\<exists>r. getTarget g u w = Some r \<and>
           (r' = r \<or> (\<exists>ts. r' = r\<lparr>session_start := Some ts\<rparr>) \<or>
            r' = r\<lparr>accumulated_seconds := accumulated_seconds r + folded_elapsed e r,
                   session_start := None\<rparr>) \<and>
           (clock_not_behind e w \<longrightarrow> accumulated_seconds r \<le> accumulated_seconds r')"
proof (cases e)
  case (VoiceStateUpdate env now ev)
  with assms(2) have "getTarget g u (voiceStateUpdate env now ev w) = Some r'"
    by simp
  from voiceStateUpdate_getTarget [OF this] obtain r where r: "getTarget g u w = Some r"
    and cases: "r' = r \<or> r' = r\<lparr>session_start := Some now\<rparr> \<or>
            (in_channel (old_channel ev) \<and> \<not> in_channel (new_channel ev) \<and>
             getTarget (vs_guild ev) (vs_user ev) w = Some r \<and>
             r' = r\<lparr>accumulated_seconds := accumulated_seconds r + leave_elapsed now r,
                    session_start := None\<rparr>)"
    by blast
  have "accumulated_seconds r \<le> accumulated_seconds r'" if clock: "clock_not_behind e w"
  proof -
    from cases consider "accumulated_seconds r' = accumulated_seconds r"
      | "in_channel (old_channel ev)" "\<not> in_channel (new_channel ev)"
        "getTarget (vs_guild ev) (vs_user ev) w = Some r"
        "accumulated_seconds r' = accumulated_seconds r + leave_elapsed now r"
      by auto
    then show ?thesis
    proof cases
      case 1
      then show ?thesis by simp
    next
      case 2
      with clock VoiceStateUpdate have "0 \<le> leave_elapsed now r"
        by (intro leave_elapsed_nonneg) simp
      with 2 show ?thesis by simp
    qed
  qed
  with r cases VoiceStateUpdate show ?thesis
    by auto
next
  case (PeriodicCheck env now)
  with assms periodic_check_getTarget [of g u env now w r'] show ?thesis
    by simp
next
  case (DailyReset env)
  with assms show ?thesis
    by (simp add: getTarget_def daily_reset_store)
next
  case (InteractionCreate i)
  with assms interactionCreate_getTarget [of i g u w r'] show ?thesis
    by simp
qed

text \<open>
  A leave sixty seconds into the session of \<open>studying\<close>: 1200 becomes 1260 and the
  session start is cleared.
\<close>

theorem accumulated_seconds_monotone_witness:
  "getTarget ''g1'' ''u1'' (step (VoiceStateUpdate memberless_discord 65000 leave_vc) studying) =
     Some \<lparr>guild_id = ''g1'', user_id = ''u1'', target_seconds = 3600,
           accumulated_seconds = 1260, session_start = None\<rparr> \<and>
   (\<exists>r. getTarget ''g1'' ''u1'' studying = Some r \<and> accumulated_seconds r \<le> 1260)"
proof -
  have after: "getTarget ''g1'' ''u1''
      (step (VoiceStateUpdate memberless_discord 65000 leave_vc) studying) =
     Some \<lparr>guild_id = ''g1'', user_id = ''u1'', target_seconds = 3600,
           accumulated_seconds = 1260, session_start = None\<rparr>"
    by (simp add: voiceStateUpdate_def Let_def leave_vc_def studying_def helpful_discord_def
          memberless_discord_def getTarget_def target_of_def in_channel_def leave_elapsed_def
          getDailyGoal_def goal_of_def kick_early_def)
  have clock: "clock_not_behind (VoiceStateUpdate memberless_discord 65000 leave_vc) studying"
    by (simp add: leave_vc_def studying_def getTarget_def target_of_def)
  have kind: "\<not> replaces_target (VoiceStateUpdate memberless_discord 65000 leave_vc)"
    by simp
  from accumulated_seconds_monotone [OF kind after] clock after show ?thesis
    by auto
qed

text \<open>
  Claim C5 as stated fails. A leave whose \<open>Date.now()\<close> is 2000, three seconds before
  the stored session start 5000, takes \<open>accumulated_seconds\<close> from 1200 down to
  1197.
\<close>

theorem clock_skew_decreases_accumulated_counterexample:
  "getTarget ''g1'' ''u1'' studying =
     Some \<lparr>guild_id = ''g1'', user_id = ''u1'', target_seconds = 3600,
           accumulated_seconds = 1200, session_start = Some 5000\<rparr> \<and>
   getTarget ''g1'' ''u1'' (step (VoiceStateUpdate memberless_discord 2000 leave_vc) studying) =
     Some \<lparr>guild_id = ''g1'', user_id = ''u1'', target_seconds = 3600,
           accumulated_seconds = 1197, session_start = None\<rparr>"
  by (simp add: voiceStateUpdate_def Let_def leave_vc_def studying_def helpful_discord_def
        memberless_discord_def getTarget_def target_of_def in_channel_def leave_elapsed_def
        getDailyGoal_def goal_of_def kick_early_def)

section \<open>Consecutive periodic checks of one session\<close>

lemma periodic_check_keeps_session:
  assumes one: "filter (target_of g u) (targets w) = [r]"
    and open_: "\<not> sampler_clears env now r"
  shows "filter (target_of g u) (targets (periodic_check env now w)) = [r]"
proof -
  let ?Q = "\<lambda>x. \<not> list_ex (\<lambda>s. sampler_clears env now s \<and>
                                  target_of (guild_id s) (user_id s) x)
                         (getAllActiveSessions w)"
  have only: "x = r" if "x \<in> set (targets w)" "target_of g u x" for x
  proof -
    from that have "x \<in> set (filter (target_of g u) (targets w))" by simp
    with one show ?thesis by simp
  qed
  have "?Q x" if x: "x \<in> set (targets w)" "target_of g u x" for x
  proof -
    have "\<not> (sampler_clears env now s \<and> target_of (guild_id s) (user_id s) x)"
      if s: "s \<in> set (getAllActiveSessions w)" for s
    proof
      assume a: "sampler_clears env now s \<and> target_of (guild_id s) (user_id s) x"
      with x(2) have "target_of g u s" by (simp add: target_of_def)
      moreover from s have "s \<in> set (targets w)" by (simp add: getAllActiveSessions_def)
      ultimately have "s = r" by (rule only [rotated])
      with a open_ show False by simp
    qed
    then show ?thesis by (simp add: list_ex_iff)
  qed
  then have "filter (target_of g u) (filter ?Q (targets w)) = filter (target_of g u) (targets w)"
    by (auto simp add: filter_filter intro!: filter_cong)
  with one show ?thesis
    by (simp add: periodic_check_targets)
qed

lemma periodic_check_session_or_gone:
  assumes one: "filter (target_of g u) (targets w) = [r]"
  shows "filter (target_of g u) (targets (periodic_check env now w)) = [r] \<or>
         filter (target_of g u) (targets (periodic_check env now w)) = []"
proof -
  let ?Q = "\<lambda>x. \<not> list_ex (\<lambda>s. sampler_clears env now s \<and>
                                  target_of (guild_id s) (user_id s) x)
                         (getAllActiveSessions w)"
  have "filter (target_of g u) (filter ?Q (targets w)) = filter ?Q (filter (target_of g u) (targets w))"
    by (simp add: conj_commute)
  with one show ?thesis
    by (simp add: periodic_check_targets)
qed

lemma run_ticks_Cons: "run_ticks env (t # ts) w = run_ticks env ts (periodic_check env t w)"
  by (simp add: run_ticks_def)

lemma run_ticks_observed_session:
  assumes "filter (target_of g u) (targets w) = [r]" and "session_start r = Some s0"
    and "\<forall>t \<in> set (butlast ticks). \<not> sampler_clears env t r"
  shows "(filter (target_of g u) (targets (run_ticks env ticks w)) = [r] \<or>
          filter (target_of g u) (targets (run_ticks env ticks w)) = []) \<and>
         filter (goal_of g u) (daily_goals (run_ticks env ticks w)) =
           map (\<lambda>d. d\<lparr>achieved_hours := achieved_hours d +
                        (\<Sum>t\<leftarrow>ticks. of_int ((t - s0) div 1000) / 3600)\<rparr>)
             (filter (goal_of g u) (daily_goals w))"
  using assms(1,3)
proof (induction ticks arbitrary: w)
  case Nil
  then show ?case by (simp add: run_ticks_def)
next
  case (Cons t ticks)
  note goals = periodic_check_goals_one_session [OF Cons.prems(1) assms(2), of env t]
  show ?case
  proof (cases "ticks = []")
    case True
    with goals periodic_check_session_or_gone [OF Cons.prems(1), of env t] show ?thesis
      by (simp add: run_ticks_def)
  next
    case False
    with Cons.prems(2) have open_: "\<not> sampler_clears env t r"
      and rest: "\<forall>t \<in> set (butlast ticks). \<not> sampler_clears env t r"
      by simp_all
    from periodic_check_keeps_session [OF Cons.prems(1) open_]
    have one: "filter (target_of g u) (targets (periodic_check env t w)) = [r]" .
    from Cons.IH [OF one rest] goals show ?thesis
      by (simp add: run_ticks_Cons add.assoc o_def)
  qed
qed

lemma find_by_filter:
  "find P xs = (case filter P xs of [] \<Rightarrow> None | x # _ \<Rightarrow> Some x)"
  by (induction xs) simp_all

lemma getDailyGoal_after_add:
  assumes "getDailyGoal g u w = Some d"
    and "filter (goal_of g u) (daily_goals w') =
           map (\<lambda>d. d\<lparr>achieved_hours := achieved_hours d + h\<rparr>)
             (filter (goal_of g u) (daily_goals w))"
  shows "getDailyGoal g u w' = Some (d\<lparr>achieved_hours := achieved_hours d + h\<rparr>)"
proof -
  from assms(1) obtain rest where "filter (goal_of g u) (daily_goals w) = d # rest"
    by (auto simp add: getDailyGoal_def find_by_filter split: list.splits)
  with assms(2) show ?thesis
    by (simp add: getDailyGoal_def find_by_filter)
qed

lemma sum_list_hours:
  "(\<Sum>t\<leftarrow>ticks. (of_int (f t) :: rat) / 3600) = of_int (\<Sum>t\<leftarrow>ticks. f t) / 3600"
  by (induction ticks) (simp_all add: add_divide_distrib)

lemma last_plus_butlast:
  fixes f :: "int \<Rightarrow> int"
  shows "xs \<noteq> [] \<Longrightarrow> (\<Sum>x\<leftarrow>xs. f x) = (\<Sum>x\<leftarrow>butlast xs. f x) + f (last xs)"
  by (induction xs) simp_all

lemma floor_thousand_bounds:
  fixes x :: int
  shows "1000 * (x div 1000) \<le> x" and "x < 1000 * (x div 1000 + 1)"
  using div_mult_mod_eq [of x 1000] pos_mod_bound [of 1000 x] pos_mod_sign [of 1000 x]
  by (simp_all add: algebra_simps)

lemma hours_less_iff:
  fixes a b :: rat
  shows "(a / 1000 / 3600 < b / 3600) \<longleftrightarrow> a < 1000 * b"
proof -
  have "(a / 1000 / 3600 < b / 3600) \<longleftrightarrow> a / 1000 < b"
    by (simp add: divide_less_cancel)
  also have "\<dots> \<longleftrightarrow> a < 1000 * b"
    by (simp add: pos_divide_less_eq mult.commute)
  finally show ?thesis .
qed

lemma overcount_iff:
  fixes s0 :: int
  assumes "ticks \<noteq> []"
  shows "(of_int (last ticks - s0) / 1000 / 3600 <
            (\<Sum>t\<leftarrow>ticks. (of_int ((t - s0) div 1000) :: rat) / 3600)) \<longleftrightarrow>
         1 \<le> (\<Sum>t\<leftarrow>butlast ticks. (t - s0) div 1000)"
proof -
  let ?f = "\<lambda>t. (t - s0) div 1000"
  let ?B = "\<Sum>t\<leftarrow>butlast ticks. ?f t"
  let ?x = "last ticks - s0"
  have sum: "(\<Sum>t\<leftarrow>ticks. ?f t) = ?B + ?x div 1000"
    using assms by (rule last_plus_butlast)
  have "(of_int ?x / 1000 / 3600 < (\<Sum>t\<leftarrow>ticks. (of_int (?f t) :: rat) / 3600)) \<longleftrightarrow>
        (of_int ?x :: rat) < of_int (1000 * (\<Sum>t\<leftarrow>ticks. ?f t))"
    unfolding sum_list_hours hours_less_iff by simp
  also have "\<dots> \<longleftrightarrow> ?x < 1000 * (?B + ?x div 1000)"
    by (simp only: of_int_less_iff sum)
  also have "\<dots> \<longleftrightarrow> 1 \<le> ?B"
    using floor_thousand_bounds [of ?x] by (auto simp add: algebra_simps)
  finally show ?thesis .
qed

text \<open>
  Claim C2 (amended). A member has one target row with a session open since \<open>s0\<close>
  and a daily goal, and the periodic check fires at the times \<open>ticks\<close>, the target row
  still being there when each of them fires (no tick before the last one deletes it).
  Then each tick adds the full elapsed time since \<open>s0\<close>, not the time since the
  previous tick: the daily goal grows by the sum of \<open>floor ((t - s0) / 1000) / 3600\<close>
  over all ticks \<open>t\<close>, and the target row is never advanced (after the ticks it is the
  same row, or the last tick has deleted it). This growth is strictly more than the
  real duration of the session up to the last tick, \<open>(last ticks - s0) / 1000 / 3600\<close>
  hours, exactly when the ticks before the last one have together credited at least one
  whole second.
\<close>

theorem periodic_check_overcounts:
  assumes "target_keys_distinct w" and "getTarget g u w = Some r"
    and "session_start r = Some s0" and "getDailyGoal g u w = Some d"
    and "\<forall>t \<in> set (butlast ticks). \<not> sampler_clears env t r"
  shows "(getTarget g u (run_ticks env ticks w) = Some r \<or>
          getTarget g u (run_ticks env ticks w) = None) \<and>
         getDailyGoal g u (run_ticks env ticks w) =
           Some (d\<lparr>achieved_hours := achieved_hours d +
                      (\<Sum>t\<leftarrow>ticks. of_int ((t - s0) div 1000) / 3600)\<rparr>) \<and>
         (ticks \<noteq> [] \<longrightarrow>
            (of_int (last ticks - s0) / 1000 / 3600 <
               (\<Sum>t\<leftarrow>ticks. (of_int ((t - s0) div 1000) :: rat) / 3600)) =
            (1 \<le> (\<Sum>t\<leftarrow>butlast ticks. (t - s0) div 1000)))"
proof -
  from only_target_row [OF assms(1,2)]
  have one: "filter (target_of g u) (targets w) = [r]" .
  from run_ticks_observed_session [OF one assms(3,5)]
  have rows: "filter (target_of g u) (targets (run_ticks env ticks w)) = [r] \<or>
          filter (target_of g u) (targets (run_ticks env ticks w)) = []"
    and goals: "filter (goal_of g u) (daily_goals (run_ticks env ticks w)) =
           map (\<lambda>d. d\<lparr>achieved_hours := achieved_hours d +
                        (\<Sum>t\<leftarrow>ticks. of_int ((t - s0) div 1000) / 3600)\<rparr>)
             (filter (goal_of g u) (daily_goals w))"
    by simp_all
  from rows have target: "getTarget g u (run_ticks env ticks w) = Some r \<or>
          getTarget g u (run_ticks env ticks w) = None"
    by (auto simp add: getTarget_def find_by_filter)
  from getDailyGoal_after_add [OF assms(4) goals]
  have goal: "getDailyGoal g u (run_ticks env ticks w) =
           Some (d\<lparr>achieved_hours := achieved_hours d +
                      (\<Sum>t\<leftarrow>ticks. of_int ((t - s0) div 1000) / 3600)\<rparr>)" .
  from target goal overcount_iff [of ticks s0] show ?thesis
    by simp
qed

text \<open>
  Two ticks late in the session of \<open>studying\<close>, the second of which completes the
  target: together they add 4790 seconds' worth of hours to the daily goal, where 2400
  seconds have passed.
\<close>

theorem periodic_check_overcounts_witness:
  "getDailyGoal ''g1'' ''u1'' (run_ticks helpful_discord [2395000, 2405000] studying) =
     Some \<lparr>goal_guild_id = ''g1'', goal_user_id = ''u1'', goal_hours = 2,
           achieved_hours = 479 / 360, goal_session_start = None\<rparr> \<and>
   (of_int (2405000 - 5000) / 1000 / 3600 :: rat) < 479 / 360"
proof -
  let ?row = "\<lparr>guild_id = ''g1'', user_id = ''u1'', target_seconds = 3600,
                accumulated_seconds = 1200, session_start = Some 5000\<rparr>"
  let ?goal = "\<lparr>goal_guild_id = ''g1'', goal_user_id = ''u1'', goal_hours = 2,
                 achieved_hours = 0, goal_session_start = None\<rparr>"
  have keys: "target_keys_distinct studying"
    by (simp add: target_keys_distinct_def studying_def)
  have row: "getTarget ''g1'' ''u1'' studying = Some ?row"
    by (simp add: studying_def getTarget_def target_of_def)
  have ts: "session_start ?row = Some 5000"
    by simp
  have goal: "getDailyGoal ''g1'' ''u1'' studying = Some ?goal"
    by (simp add: studying_def getDailyGoal_def goal_of_def)
  have seen: "\<forall>t \<in> set (butlast [2395000, 2405000]). \<not> sampler_clears helpful_discord t ?row"
    by (simp add: sampler_clears_def sampler_elapsed_def)
  from periodic_check_overcounts [OF keys row ts goal seen]
  show ?thesis
    by simp
qed

text \<open>
  Claim C2 as stated fails. Two consecutive ticks, half a second and ten and a half
  seconds into the session, add 0 and 10 seconds: the daily goal grows by \<open>1 / 360\<close>
  hours, less than the \<open>10.5\<close> seconds of the session so far.
\<close>

theorem two_ticks_undercount_counterexample:
  "getDailyGoal ''g1'' ''u1'' studying =
     Some \<lparr>goal_guild_id = ''g1'', goal_user_id = ''u1'', goal_hours = 2,
           achieved_hours = 0, goal_session_start = None\<rparr> \<and>
   getDailyGoal ''g1'' ''u1'' (run_ticks helpful_discord [5500, 15500] studying) =
     Some \<lparr>goal_guild_id = ''g1'', goal_user_id = ''u1'', goal_hours = 2,
           achieved_hours = 1 / 360, goal_session_start = None\<rparr> \<and>
   getTarget ''g1'' ''u1'' (run_ticks helpful_discord [5500, 15500] studying) =
     Some \<lparr>guild_id = ''g1'', user_id = ''u1'', target_seconds = 3600,
           accumulated_seconds = 1200, session_start = Some 5000\<rparr> \<and>
   (1 / 360 :: rat) < of_int (15500 - 5000) / 1000 / 3600"
  by (simp add: run_ticks_def periodic_check_def getAllActiveSessions_def studying_def
        helpful_discord_def sampler_elapsed_def Let_def getDailyGoal_def goal_of_def
        getTarget_def target_of_def)

section \<open>The primary key of the targets table\<close>

text \<open>
  Several statements above take the keys of the targets table to be distinct. Every
  entry point keeps them so, and the empty store has them so: the hypothesis holds in
  every world the program reaches.
\<close>

lemma keys_distinct_cong:
  "targets w' = targets w \<Longrightarrow> target_keys_distinct w' = target_keys_distinct w"
  by (simp add: target_keys_distinct_def)

lemma keys_distinct_filter:
  "target_keys_distinct w \<Longrightarrow> targets w' = filter P (targets w) \<Longrightarrow> target_keys_distinct w'"
  by (simp add: target_keys_distinct_def distinct_map_filter)

lemma keys_distinct_map:
  assumes "target_keys_distinct w" and "targets w' = map f (targets w)"
    and "\<And>r. guild_id (f r) = guild_id r \<and> user_id (f r) = user_id r"
  shows "target_keys_distinct w'"
proof -
  from assms(3) have "(\<lambda>r. (guild_id r, user_id r)) \<circ> f = (\<lambda>r. (guild_id r, user_id r))"
    by (simp add: fun_eq_iff)
  then have "map (\<lambda>r. (guild_id r, user_id r)) (targets w') =
      map (\<lambda>r. (guild_id r, user_id r)) (targets w)"
    unfolding assms(2) map_map by (rule arg_cong)
  with assms(1) show ?thesis
    unfolding target_keys_distinct_def by (simp only:)
qed

lemma keys_distinct_emit [simp]: "target_keys_distinct (emit ev w) = target_keys_distinct w"
  by (rule keys_distinct_cong) simp

lemma keys_distinct_addAchievedHours [simp]:
  "target_keys_distinct (addAchievedHours g u h w) = target_keys_distinct w"
  by (rule keys_distinct_cong) simp

lemma keys_distinct_clearTarget:
  "target_keys_distinct w \<Longrightarrow> target_keys_distinct (clearTarget g u w)"
  by (rule keys_distinct_filter [OF _ clearTarget_fields(1)])

lemma keys_distinct_addAccumulated:
  "target_keys_distinct w \<Longrightarrow> target_keys_distinct (addAccumulated g u e w)"
  by (rule keys_distinct_map [OF _ addAccumulated_fields(1)]) simp_all

lemma keys_distinct_setSessionStart:
  "target_keys_distinct w \<Longrightarrow> target_keys_distinct (setSessionStart g u ts w)"
  by (rule keys_distinct_map [OF _ setSessionStart_fields(1)]) simp_all

lemma keys_distinct_kick_early:
  "target_keys_distinct w \<Longrightarrow> target_keys_distinct (kick_early env g u upd w)"
  by (simp add: kick_early_def Let_def keys_distinct_clearTarget split: option.splits)

lemma keys_distinct_periodic_check:
  "target_keys_distinct w \<Longrightarrow> target_keys_distinct (periodic_check env now w)"
  by (rule keys_distinct_filter [OF _ periodic_check_targets])

lemma keys_distinct_daily_reset:
  "target_keys_distinct (daily_reset env w) = target_keys_distinct w"
  by (rule keys_distinct_cong) (simp add: daily_reset_store)

lemma keys_distinct_setTarget:
  assumes "target_keys_distinct w"
  shows "target_keys_distinct (setTarget g u s w)"
proof (cases "list_ex (target_of g u) (targets w)")
  case True
  then have "targets (setTarget g u s w) =
      map (\<lambda>r. if target_of g u r
                then r\<lparr>target_seconds := s, accumulated_seconds := 0, session_start := None\<rparr>
                else r) (targets w)"
    by (simp add: setTarget_def)
  from keys_distinct_map [OF assms this] show ?thesis
    by simp
next
  case False
  then have "(g, u) \<notin> set (map (\<lambda>r. (guild_id r, user_id r)) (targets w))"
    by (auto simp add: list_ex_iff target_of_def)
  with assms False show ?thesis
    by (simp add: target_keys_distinct_def setTarget_def)
qed

lemma keys_distinct_voiceStateUpdate:
  "target_keys_distinct w \<Longrightarrow> target_keys_distinct (voiceStateUpdate env now ev w)"
  by (simp add: voiceStateUpdate_def Let_def if_goal_then_add keys_distinct_clearTarget
        keys_distinct_addAccumulated keys_distinct_setSessionStart keys_distinct_kick_early
        split: option.splits)


lemma keys_distinct_todo_goal [simp]:
  "target_keys_distinct (addTodo g u txt w) = target_keys_distinct w"
  "target_keys_distinct (completeTodo g u n w) = target_keys_distinct w"
  "target_keys_distinct (deleteTodo g u n w) = target_keys_distinct w"
  "target_keys_distinct (setDailyGoal g u h w) = target_keys_distinct w"
  by (simp_all add: target_keys_distinct_def addTodo_def completeTodo_def deleteTodo_def)

lemma keys_distinct_run_command:
  "target_keys_distinct w \<Longrightarrow> target_keys_distinct (run_command g u c w)"
  by (cases c) (simp_all add: keys_distinct_setTarget keys_distinct_clearTarget Let_def)

lemma keys_distinct_interactionCreate:
  "target_keys_distinct w \<Longrightarrow> target_keys_distinct (interactionCreate i w)"
  by (simp add: interactionCreate_def keys_distinct_run_command split: option.splits)

lemma keys_distinct_step:
  "target_keys_distinct w \<Longrightarrow> target_keys_distinct (step e w)"
  by (cases e)
     (simp_all add: keys_distinct_voiceStateUpdate keys_distinct_periodic_check
        keys_distinct_daily_reset keys_distinct_interactionCreate)

lemma keys_distinct_run:
  "target_keys_distinct w \<Longrightarrow> target_keys_distinct (run es w)"
  by (induction es arbitrary: w) (simp_all add: run_def keys_distinct_step)

lemma keys_distinct_reachable: "target_keys_distinct (run es empty_store)"
  by (rule keys_distinct_run) (simp add: target_keys_distinct_def empty_store_def)

end
